theory Spec2Isabelle
  imports Complex_Main "HOL-Library.Char_ord" "HOL-Library.List_Lexorder"
    "HOL-Library.Product_Lexorder"
begin

section \<open>Tables\<close>

text \<open>
  A pandas table is modelled by its ordered column labels and its rows, each row carrying
  its index label and a function from column label to cell. Only the cells under the
  labels listed in \<open>columns\<close> belong to the table; every read of a column is
  guarded by a membership test on \<open>columns\<close>, the way pandas raises KeyError on an
  unknown label. Column labels are taken to be distinct (pandas' behaviour on duplicated
  labels is not modelled).

  A cell is a missing value (NaN, NaT, None), a number, a string or a date (days since
  1970-01-01). Numbers are exact reals: rounding of the float arithmetic is not modelled.
\<close>

datatype cell = NaN | Num real | Str string | Day int

datatype error =
    AssertionError string
  | KeyError string
  | TypeError
  | ValueError
  | NameError string
  | SystemExit int

type_synonym row = "string \<Rightarrow> cell"

record 'i frame =
  columns :: "string list"
  rows :: "('i \<times> row) list"

definition bind_err :: "error + 'a \<Rightarrow> ('a \<Rightarrow> error + 'b) \<Rightarrow> error + 'b" where
  "bind_err m f = (case m of Inl e \<Rightarrow> Inl e | Inr x \<Rightarrow> f x)"

text \<open>\<open>Series.unique()\<close>: the values in the order they first appear.\<close>

definition unique :: "'a list \<Rightarrow> 'a list" where
  "unique xs = rev (remdups (rev xs))"

text \<open>The parts of pandas whose result depends on parsing and formatting rules that
  are not part of this repository: \<open>Series.astype(str)\<close> on one cell, and
  \<open>pd.to_datetime\<close> on one cell (\<open>None\<close> when it raises).\<close>

record pandas =
  astype_str :: "cell \<Rightarrow> string"
  to_datetime :: "cell \<Rightarrow> cell option"

definition select_rows :: "('i \<times> row \<Rightarrow> bool) \<Rightarrow> 'i frame \<Rightarrow> 'i frame" where
  "select_rows p df = df\<lparr>rows := filter p (rows df)\<rparr>"

definition rename_label :: "(string \<times> string) list \<Rightarrow> string \<Rightarrow> string" where
  "rename_label m c = (case map_of m c of Some c' \<Rightarrow> c' | None \<Rightarrow> c)"

definition rename_columns :: "(string \<times> string) list \<Rightarrow> 'i frame \<Rightarrow> 'i frame" where
  "rename_columns m df =
     \<lparr>columns = map (rename_label m) (columns df),
      rows = map (\<lambda>(i, r). (i, \<lambda>c'. case find (\<lambda>c. rename_label m c = c') (columns df) of
                                       Some c \<Rightarrow> r c | None \<Rightarrow> NaN)) (rows df)\<rparr>"

definition drop_columns :: "string list \<Rightarrow> 'i frame \<Rightarrow> 'i frame" where
  "drop_columns names df = df\<lparr>columns := filter (\<lambda>c. c \<notin> set names) (columns df)\<rparr>"

definition dropna :: "string list \<Rightarrow> 'i frame \<Rightarrow> error + 'i frame" where
  "dropna subs df =
     (case filter (\<lambda>c. c \<notin> set (columns df)) subs of
        c # _ \<Rightarrow> Inl (KeyError c)
      | [] \<Rightarrow> Inr (select_rows (\<lambda>(i, r). list_all (\<lambda>c. r c \<noteq> NaN) subs) df))"

definition set_column :: "string \<Rightarrow> (row \<Rightarrow> cell) \<Rightarrow> 'i frame \<Rightarrow> 'i frame" where
  "set_column c f df =
     \<lparr>columns = (if c \<in> set (columns df) then columns df else columns df @ [c]),
      rows = map (\<lambda>(i, r). (i, r(c := f r))) (rows df)\<rparr>"

text \<open>Elementwise \<open>+\<close> of a string with a cell of an object column: pandas computes it
  on the non-missing cells only, and Python raises TypeError on a non-string operand.\<close>

fun str_add :: "string \<Rightarrow> cell \<Rightarrow> cell option" where
  "str_add a (Str b) = Some (Str (a @ b))"
| "str_add a NaN = Some NaN"
| "str_add a (Num x) = None"
| "str_add a (Day d) = None"

fun str_radd :: "string \<Rightarrow> cell \<Rightarrow> cell option" where
  "str_radd a (Str b) = Some (Str (a @ b))"
| "str_radd a NaN = Some NaN"
| "str_radd a (Num x) = None"
| "str_radd a (Day d) = None"

text \<open>\<open>1 - x\<close> on one cell.\<close>

fun rsub1 :: "cell \<Rightarrow> cell option" where
  "rsub1 (Num x) = Some (Num (1 - x))"
| "rsub1 NaN = Some NaN"
| "rsub1 (Str s) = None"
| "rsub1 (Day d) = None"

definition apply_column :: "string \<Rightarrow> (cell \<Rightarrow> cell option) \<Rightarrow> 'i frame \<Rightarrow> error + 'i frame" where
  "apply_column c f df =
     (if c \<notin> set (columns df) then Inl (KeyError c)
      else if list_ex (\<lambda>(i, r). f (r c) = None) (rows df) then Inl TypeError
      else Inr (df\<lparr>rows := map (\<lambda>(i, r). (i, r(c := (case f (r c) of Some v \<Rightarrow> v | None \<Rightarrow> r c))))
                               (rows df)\<rparr>))"

definition apply_columns :: "string list \<Rightarrow> (cell \<Rightarrow> cell option) \<Rightarrow> 'i frame \<Rightarrow> error + 'i frame" where
  "apply_columns cs f df =
     (case filter (\<lambda>c. c \<notin> set (columns df)) cs of
        c # _ \<Rightarrow> Inl (KeyError c)
      | [] \<Rightarrow>
        if list_ex (\<lambda>(i, r). list_ex (\<lambda>c. f (r c) = None) cs) (rows df) then Inl TypeError
        else Inr (df\<lparr>rows := map (\<lambda>(i, r). (i, \<lambda>c. if c \<in> set cs
                                          then (case f (r c) of Some v \<Rightarrow> v | None \<Rightarrow> r c)
                                          else r c)) (rows df)\<rparr>))"

section \<open>preprocessors.py\<close>

text \<open>\<open>DataPreprocesser.make_complement\<close>: the four assignments, in the source's order.\<close>

definition make_complement :: "'i frame \<Rightarrow> string list \<Rightarrow> error + 'i frame" where
  "make_complement df_tally variants_list =
     bind_err (apply_column ''mutations'' (str_radd ''-'') df_tally) (\<lambda>t1.
     bind_err (apply_column ''frac'' rsub1 t1) (\<lambda>t2.
     bind_err (apply_columns variants_list rsub1 t2) (\<lambda>t3.
     Inr (set_column ''undetermined'' (\<lambda>r. Num 1) t3))))"

text \<open>The steps of \<open>general_preprocess\<close>, in the source's order. The two warnings it
  prints to stderr change nothing and are left out.\<close>

definition assert_injective :: "(string \<times> string) list \<Rightarrow> error + unit" where
  "assert_injective variants_pangolin =
     (if length (map snd variants_pangolin) = card (set (map snd variants_pangolin))
      then Inr () else Inl (AssertionError ''duplicate values''))"

definition derive_mutations :: "pandas \<Rightarrow> 'i frame \<Rightarrow> error + 'i frame" where
  "derive_mutations pd df =
     (if ''base'' \<in> set (columns df) \<and> ''pos'' \<in> set (columns df) then
        (if list_ex (\<lambda>(i, r). str_add (astype_str pd (r ''pos'')) (r ''base'') = None) (rows df)
         then Inl TypeError
         else Inr (set_column ''mutations''
                     (\<lambda>r. case str_add (astype_str pd (r ''pos'')) (r ''base'') of
                             Some v \<Rightarrow> v | None \<Rightarrow> NaN) df))
      else Inr df)"

definition parse_dates :: "pandas \<Rightarrow> 'i frame \<Rightarrow> error + 'i frame" where
  "parse_dates pd df =
     (if ''date'' \<notin> set (columns df) then Inl (KeyError ''date'')
      else if list_ex (\<lambda>(i, r). to_datetime pd (r ''date'') = None) (rows df) then Inl ValueError
      else Inr (set_column ''date''
                  (\<lambda>r. case to_datetime pd (r ''date'') of Some v \<Rightarrow> v | None \<Rightarrow> NaN) df))"

fun date_ge :: "cell \<Rightarrow> int \<Rightarrow> bool" where
  "date_ge (Day x) d = (d \<le> x)"
| "date_ge c d = False"

fun date_lt :: "cell \<Rightarrow> int \<Rightarrow> bool" where
  "date_lt (Day x) d = (x < d)"
| "date_lt c d = False"

definition filter_dates :: "bool \<Rightarrow> int option \<Rightarrow> int option \<Rightarrow> 'i frame \<Rightarrow> 'i frame" where
  "filter_dates no_date start_date end_date df =
     (if no_date then df
      else
        (let df1 = (case start_date of None \<Rightarrow> df
                    | Some s \<Rightarrow> select_rows (\<lambda>(i, r). date_ge (r ''date'') s) df)
         in (case end_date of None \<Rightarrow> df1
             | Some e \<Rightarrow> select_rows (\<lambda>(i, r). date_lt (r ''date'') e) df1)))"

definition drop_deletions :: "bool \<Rightarrow> 'i frame \<Rightarrow> 'i frame" where
  "drop_deletions remove_deletions df =
     (if remove_deletions \<and> ''base'' \<in> set (columns df)
      then select_rows (\<lambda>(i, r). r ''base'' \<noteq> Str ''-'') df
      else df)"

fun isin :: "cell \<Rightarrow> string list \<Rightarrow> bool" where
  "isin (Str s) vals = (s \<in> set vals)"
| "isin c vals = False"

fun drop_tagged :: "string list \<Rightarrow> string list \<Rightarrow> 'i frame \<Rightarrow> 'i frame" where
  "drop_tagged to_drop [] df = df"
| "drop_tagged to_drop (v # vs) df =
     drop_tagged to_drop vs
       (if v \<in> set (columns df) \<and> list_ex (\<lambda>(i, r). isin (r v) to_drop) (rows df)
        then select_rows (\<lambda>(i, r). \<not> isin (r v) to_drop) df
        else df)"

definition reset_index :: "'i frame \<Rightarrow> nat frame" where
  "reset_index df = \<lparr>columns = columns df, rows = zip [0..<length (rows df)] (map snd (rows df))\<rparr>"

definition replace :: "cell list \<Rightarrow> cell \<Rightarrow> 'i frame \<Rightarrow> 'i frame" where
  "replace to_replace v df =
     df\<lparr>rows := map (\<lambda>(i, r). (i, \<lambda>c. if r c \<in> set to_replace then v else r c)) (rows df)\<rparr>"

definition tags :: "cell list" where
  "tags = [Str ''extra'', Str ''mut'', Str ''shared'', Str ''revert'', Str ''subset'']"

definition recode :: "'i frame \<Rightarrow> 'i frame" where
  "recode df = replace tags (Num 1) (replace [NaN] (Num 0) df)"

text \<open>\<open>list(set(variants_list) & set(columns))\<close>: only the elements and the length of
  this list are used, so any enumeration of the set stands for it.\<close>

definition variants_columns_of :: "string list \<Rightarrow> 'i frame \<Rightarrow> string list" where
  "variants_columns_of variants_list df =
     filter (\<lambda>v. v \<in> set (columns df)) (remdups variants_list)"

text \<open>\<open>df[cols].sum(axis=1)\<close> on one row: missing cells are skipped, a string or a
  date makes the sum raise TypeError.\<close>

fun summand :: "cell \<Rightarrow> real option" where
  "summand (Num x) = Some x"
| "summand NaN = Some 0"
| "summand (Str s) = None"
| "summand (Day d) = None"

definition row_sum :: "string list \<Rightarrow> row \<Rightarrow> real" where
  "row_sum cs r = sum_list (map (\<lambda>c. case summand (r c) of Some x \<Rightarrow> x | None \<Rightarrow> 0) cs)"

definition informative :: "string list \<Rightarrow> row \<Rightarrow> bool" where
  "informative cs r = (row_sum cs r \<noteq> 0 \<and> row_sum cs r \<noteq> real (length cs))"

definition drop_uninformative :: "string list \<Rightarrow> 'i frame \<Rightarrow> error + 'i frame" where
  "drop_uninformative cs df =
     (if list_ex (\<lambda>(i, r). list_ex (\<lambda>c. summand (r c) = None) cs) (rows df) then Inl TypeError
      else Inr (select_rows (\<lambda>(i, r). informative cs r) df))"

definition insert_column :: "nat \<Rightarrow> string \<Rightarrow> cell \<Rightarrow> 'i frame \<Rightarrow> error + 'i frame" where
  "insert_column loc c v df =
     (if c \<in> set (columns df) then Inl ValueError
      else Inr \<lparr>columns = take loc (columns df) @ [c] @ drop loc (columns df),
                rows = map (\<lambda>(i, r). (i, r(c := v))) (rows df)\<rparr>)"

definition pd_concat2 :: "'i frame \<Rightarrow> 'i frame \<Rightarrow> 'i frame" where
  "pd_concat2 a b = \<lparr>columns = columns a, rows = rows a @ rows b\<rparr>"

text \<open>Lines 37-93: renaming, column and row selection, up to \<open>reset_index\<close>.\<close>

definition select_stage ::
  "pandas \<Rightarrow> nat frame \<Rightarrow> string list \<Rightarrow> (string \<times> string) list \<Rightarrow> string list \<Rightarrow> string list \<Rightarrow>
   int option \<Rightarrow> int option \<Rightarrow> bool \<Rightarrow> bool \<Rightarrow> error + nat frame" where
  "select_stage pd df_tally variants_list variants_pangolin variants_not_reported to_drop
     start_date end_date no_date remove_deletions =
     bind_err (assert_injective variants_pangolin) (\<lambda>_.
     bind_err (dropna (if \<not> no_date then [''frac'', ''date''] else [''frac''])
                 (drop_columns variants_not_reported (rename_columns variants_pangolin df_tally))) (\<lambda>d1.
     bind_err (derive_mutations pd d1) (\<lambda>d2.
     bind_err (parse_dates pd d2) (\<lambda>d3.
     Inr (reset_index
            (drop_tagged to_drop variants_list
               (drop_deletions remove_deletions
                  (filter_dates no_date start_date end_date d3))))))))"

text \<open>Lines 102-115: uninformative rows, the \<open>undetermined\<close> column, the complement.\<close>

definition complement_stage :: "string list \<Rightarrow> bool \<Rightarrow> nat frame \<Rightarrow> error + nat frame" where
  "complement_stage variants_list make_compl df =
     (let variants_columns = variants_columns_of variants_list df in
      bind_err (drop_uninformative variants_columns df) (\<lambda>d1.
      bind_err (insert_column (length (columns d1) - 1) ''undetermined'' (Num 0) d1) (\<lambda>d2.
      if make_compl
      then bind_err (make_complement d2 variants_columns) (\<lambda>c. Inr (pd_concat2 d2 c))
      else Inr d2)))"

definition general_preprocess ::
  "pandas \<Rightarrow> nat frame \<Rightarrow> string list \<Rightarrow> (string \<times> string) list \<Rightarrow> string list \<Rightarrow> string list \<Rightarrow>
   int option \<Rightarrow> int option \<Rightarrow> bool \<Rightarrow> bool \<Rightarrow> bool \<Rightarrow> error + nat frame" where
  "general_preprocess pd df_tally variants_list variants_pangolin variants_not_reported to_drop
     start_date end_date no_date remove_deletions make_compl =
     bind_err (select_stage pd df_tally variants_list variants_pangolin variants_not_reported
                 to_drop start_date end_date no_date remove_deletions) (\<lambda>d.
     complement_stage variants_list make_compl (recode d))"

section \<open>cli/deconvolute.py: from the configuration to the per-slice results\<close>

text \<open>
  The run is modelled from the point where the configuration documents and the tally table
  have been read. Its effects are kept as a list of events, in the order they happen:
  the messages of the location handling and of the window planner (the other messages the
  run prints are not recorded), the seeding of numpy's global random generator, and every
  call into the lollipop library, which is not part of these files. A computation is a pair
  of the events it caused and its result, an error ending it.
\<close>

datatype event =
    Print string
  | Seed "int option"
  | Resample string
  | Deconv string int

type_synonym 'a io = "event list \<times> (error + 'a)"

definition return_io :: "'a \<Rightarrow> 'a io" where
  "return_io x = ([], Inr x)"

definition raise_io :: "error \<Rightarrow> 'a io" where
  "raise_io e = ([], Inl e)"

definition print_io :: "string \<Rightarrow> unit io" where
  "print_io s = ([Print s], Inr ())"

definition lift_io :: "error + 'a \<Rightarrow> 'a io" where
  "lift_io m = ([], m)"

definition bind_io :: "'a io \<Rightarrow> ('a \<Rightarrow> 'b io) \<Rightarrow> 'b io" where
  "bind_io m f =
     (case snd m of
        Inl e \<Rightarrow> (fst m, Inl e)
      | Inr x \<Rightarrow> (fst m @ fst (f x), snd (f x)))"

fun fold_io :: "('a \<Rightarrow> 's \<Rightarrow> 's io) \<Rightarrow> 'a list \<Rightarrow> 's \<Rightarrow> 's io" where
  "fold_io f [] s = return_io s"
| "fold_io f (x # xs) s = bind_io (f x s) (fold_io f xs)"

text \<open>The variants configuration (with the \<open>--loc\<close> option merged into
  \<open>locations_list\<close>, as line 142 does), the variants schedule when one is given, and the
  deconvolution parameters the run itself reads. Dates are days since 1970-01-01.\<close>

record conf_yaml =
  cf_variants_pangolin :: "(string \<times> string) list"
  cf_variants_list :: "string list option"
  cf_variants_not_reported :: "string list"
  cf_to_drop :: "string list"
  cf_no_date :: bool
  cf_no_loc :: bool
  cf_start_date :: "int option"
  cf_end_date :: "int option"
  cf_remove_deletions :: bool
  cf_locations_list :: "string list option"

record deconv_yaml =
  dc_bootstrap :: int
  dc_confint :: "string option"
  dc_scale :: "string option"

text \<open>What the regression engine is called with, and what it returns: the fitted table and
  the two confidence bands, indexed by date.\<close>

record engine_call =
  ec_X :: "nat frame"
  ec_frac :: "cell list"
  ec_date :: "cell list"
  ec_weights :: "cell list option"
  ec_no_date :: bool

record fit =
  fitted :: "cell frame"
  conf_lower :: "cell frame"
  conf_upper :: "cell frame"

text \<open>The library and the interpreter, as far as the run depends on them:
  \<open>np.random.seed\<close> giving the state of the global generator; \<open>ll.resample_mutations\<close>,
  which draws from that generator; \<open>KernelDeconv(...).deconv_all\<close>; and the order in which
  \<open>list(set(...))\<close> enumerates a set of strings, which CPython derives from string hashes
  that change from one process to the next. Last, the text Python writes for a float, for
  a date converted by \<open>astype("str")\<close>, and for a string in \<open>json.dumps\<close>.\<close>

record 'g lib =
  seed_rng :: "int option \<Rightarrow> 'g"
  resample_mutations :: "'g \<Rightarrow> nat frame \<Rightarrow> cell list \<Rightarrow> error + nat frame \<times> 'g"
  deconv_all :: "engine_call \<Rightarrow> error + fit"
  list_of_set :: "string list \<Rightarrow> string list"
  repr_float :: "real \<Rightarrow> string"
  str_date :: "cell \<Rightarrow> string"
  dumps_str :: "string \<Rightarrow> string"
  np_exp :: "real \<Rightarrow> real"

definition column :: "string \<Rightarrow> 'i frame \<Rightarrow> error + cell list" where
  "column c df =
     (if c \<in> set (columns df) then Inr (map (\<lambda>(i, r). r c) (rows df)) else Inl (KeyError c))"

definition select_columns :: "string list \<Rightarrow> 'i frame \<Rightarrow> error + 'i frame" where
  "select_columns cs df =
     (case filter (\<lambda>c. c \<notin> set (columns df)) cs of
        c # _ \<Rightarrow> Inl (KeyError c)
      | [] \<Rightarrow> Inr (df\<lparr>columns := cs\<rparr>))"

definition frame_size :: "'i frame \<Rightarrow> nat" where
  "frame_size df = length (rows df) * length (columns df)"

text \<open>\<open>list(set(df["location"].unique()) - {"", np.nan})\<close>. Location cells are strings or
  missing.\<close>

definition observed_locations :: "'g lib \<Rightarrow> 'i frame \<Rightarrow> string list" where
  "observed_locations ll df =
     list_of_set ll
       (remdups (concat (map (\<lambda>(i, r). case r ''location'' of
                                          Str s \<Rightarrow> (if s = '''' then [] else [s])
                                        | _ \<Rightarrow> []) (rows df))))"

text \<open>Lines 166-184. \<open>len(locations_list)\<close> is evaluated before \<open>locations_list is None\<close>
  is tested, so without a list the run ends there with a TypeError and the branch that would
  switch to \<open>no_loc\<close> is never taken.\<close>

definition resolve_missing_location ::
  "bool \<Rightarrow> string list option \<Rightarrow> nat frame \<Rightarrow> (bool \<times> nat frame) io" where
  "resolve_missing_location no_loc locations_list df_tally =
     (if \<not> no_loc \<and> ''location'' \<notin> set (columns df_tally) then
        (if ''location_code'' \<in> set (columns df_tally) then
           bind_io (print_io ''NOTE: No location fullnames, using codes instead'') (\<lambda>_.
           return_io (no_loc, set_column ''location'' (\<lambda>r. r ''location_code'') df_tally))
         else
           (case locations_list of
              None \<Rightarrow> raise_io TypeError
            | Some ls \<Rightarrow>
                if length ls = 1 then
                  bind_io (print_io ''WARNING: No location in input data, assuming everything is {locations_list[0]}'') (\<lambda>_.
                  return_io (no_loc, set_column ''location'' (\<lambda>r. Str (ls ! 0)) df_tally))
                else
                  bind_io (print_io ''ERROR: No location in input data. Either pass exactly one with `--loc`/`locations_list` parameter or set true the `no_loc` parameter'') (\<lambda>_.
                  raise_io (SystemExit 1))))
      else return_io (no_loc, df_tally))"

text \<open>Lines 186-210.\<close>

definition resolve_locations ::
  "'g lib \<Rightarrow> bool \<Rightarrow> string list option \<Rightarrow> nat frame \<Rightarrow> (string list \<times> nat frame) io" where
  "resolve_locations ll no_loc locations_list df_tally =
     bind_io
       (if no_loc then
          bind_io
            (if ''location'' \<in> set (columns df_tally) then
               (if observed_locations ll df_tally \<noteq> []
                then print_io ''WARNING: no_loc is set, but there are still locations in input''
                else return_io ())
             else print_io ''no_loc: ignoring location information and treating all input as a single location'') (\<lambda>_.
          return_io (Some [''location''], set_column ''location'' (\<lambda>r. Str ''location'') df_tally))
        else return_io (locations_list, df_tally)) (\<lambda>(locations_list, df_tally).
     if ''location'' \<notin> set (columns df_tally) then raise_io (KeyError ''location'')
     else
       (case locations_list of
          None \<Rightarrow> return_io (observed_locations ll df_tally, df_tally)
        | Some ls \<Rightarrow>
            if list_all (\<lambda>l. list_ex (\<lambda>(i, r). r ''location'' = Str l) (rows df_tally)) ls
            then return_io (ls, df_tally)
            else raise_io (AssertionError ''Bad locations in list'')))"

text \<open>Lines 212-235: switching to \<open>no_date\<close>, and the dummy dates, one day per sample
  from 1999-12-01 (day 10926) in the order the samples first appear.\<close>

definition index_of :: "'a \<Rightarrow> 'a list \<Rightarrow> nat" where
  "index_of x xs = length (takeWhile (\<lambda>y. y \<noteq> x) xs)"

definition resolve_dates :: "bool \<Rightarrow> nat frame \<Rightarrow> error + bool \<times> nat frame" where
  "resolve_dates no_date df_tally =
     (let no_date' = (no_date \<or> ''date'' \<notin> set (columns df_tally) \<or>
                        list_all (\<lambda>(i, r). r ''date'' = NaN) (rows df_tally))
      in if no_date' then
           (if ''sample'' \<notin> set (columns df_tally) then Inl (KeyError ''sample'')
            else
              (let samples = unique (map (\<lambda>(i, r). r ''sample'') (rows df_tally))
               in Inr (no_date', set_column ''date''
                                   (\<lambda>r. Day (10926 + int (index_of (r ''sample'') samples))) df_tally)))
         else Inr (no_date', df_tally))"

text \<open>Lines 237-282: the variants list and the schedule are reconciled. Without a schedule
  there is one window, from \<open>start_date\<close> (or 2020-01-01, day 18262; in \<open>no_date\<close> mode
  from the first dummy date).\<close>

definition plan_variants ::
  "'g lib \<Rightarrow> conf_yaml \<Rightarrow> bool \<Rightarrow> (int \<times> string list) list option \<Rightarrow>
   string list \<times> (int \<times> string list) list" where
  "plan_variants ll conf no_date variants_dates =
     (case variants_dates of
        Some var_dates \<Rightarrow>
          (let all_var_dates = remdups (concat (map snd var_dates)) in
           case cf_variants_list conf of
             None \<Rightarrow> (list_of_set ll all_var_dates, var_dates)
           | Some variants_list \<Rightarrow>
               (variants_list @
                  list_of_set ll (filter (\<lambda>v. v \<notin> set variants_list) all_var_dates),
                var_dates))
      | None \<Rightarrow>
          (let variants_list =
                 (case cf_variants_list conf of
                    None \<Rightarrow> list_of_set ll (remdups (map snd (cf_variants_pangolin conf)))
                  | Some vl \<Rightarrow> vl)
           in (variants_list,
               [(if no_date then 10926
                 else (case cf_start_date conf of Some s \<Rightarrow> s | None \<Rightarrow> 18262),
                 variants_list)])))"

text \<open>Lines 284-295: the windows, and the check of their order. The message of the
  assertion names \<open>variants_date\<close>, which is not defined anywhere (the option is
  \<open>variants_dates\<close>): when the assertion fails, building its message raises NameError.\<close>

definition date_intervals :: "(int \<times> string list) list \<Rightarrow> (int \<times> int option) list" where
  "date_intervals var_dates =
     (let d = map fst var_dates in zip d (map Some (tl d) @ [None]))"

fun check_interval :: "int \<times> int option \<Rightarrow> unit io" where
  "check_interval (mindate, Some maxdate) =
     (if mindate < maxdate then print_io ''from {mindate} to {maxdate}''
      else raise_io (NameError ''variants_date''))"
| "check_interval (mindate, None) = print_io ''from {mindate} onward''"

definition check_intervals :: "bool \<Rightarrow> (int \<times> int option) list \<Rightarrow> unit io" where
  "check_intervals no_date intervals =
     (if \<not> no_date then fold_io (\<lambda>iv _. check_interval iv) intervals () else return_io ())"

text \<open>Lines 311-335: seeding, and the parameters. \<open>confints\<close> is the table of the
  confidence estimators the run knows; a name that is not in it falls back to the null
  estimator, as \<open>confints.get(..., ll.NullConfint)\<close> does.\<close>

datatype confint_class = NullConfint | WaldConfint

definition confints :: "(string \<times> confint_class) list" where
  "confints = [(''null'', NullConfint), (''wald'', WaldConfint)]"

definition confint_of :: "deconv_yaml \<Rightarrow> confint_class" where
  "confint_of deconv =
     (case dc_confint deconv of
        None \<Rightarrow> NullConfint
      | Some name \<Rightarrow> (case map_of confints name of Some c \<Rightarrow> c | None \<Rightarrow> NullConfint))"

definition have_confint :: "deconv_yaml \<Rightarrow> bool" where
  "have_confint deconv = (confint_of deconv \<noteq> NullConfint)"

definition upper :: "char \<Rightarrow> char" where
  "upper c = (if CHR ''a'' \<le> c \<and> c \<le> CHR ''z'' then char_of (of_char c - (32 :: nat)) else c)"

definition lower :: "char \<Rightarrow> char" where
  "lower c = (if CHR ''A'' \<le> c \<and> c \<le> CHR ''Z'' then char_of (of_char c + (32 :: nat)) else c)"

fun capitalize :: "string \<Rightarrow> string" where
  "capitalize [] = []"
| "capitalize (c # cs) = upper c # map lower cs"

definition confint_name :: "deconv_yaml \<Rightarrow> string" where
  "confint_name deconv = (case dc_confint deconv of Some name \<Rightarrow> capitalize name | None \<Rightarrow> [])"

definition check_params :: "deconv_yaml \<Rightarrow> error + unit" where
  "check_params deconv =
     (if \<not> (have_confint deconv \<and> dc_bootstrap deconv > 1) then Inr ()
      else Inl (AssertionError ''either use bootstrapping or a confint class, not both at the same time.''))"

text \<open>Lines 373-442: one window of one replicate of one location. The state is the
  list \<open>all_deconv\<close>. A \<open>continue\<close> leaves it as it is.\<close>

definition between_left :: "int \<Rightarrow> int option \<Rightarrow> 'i frame \<Rightarrow> 'i frame" where
  "between_left mindate maxdate df =
     (case maxdate of
        Some m \<Rightarrow> select_rows (\<lambda>(i, r). date_ge (r ''date'') mindate \<and> date_lt (r ''date'') m) df
      | None \<Rightarrow> select_rows (\<lambda>(i, r). date_ge (r ''date'') mindate) df)"

definition tagged :: "string \<Rightarrow> string option \<Rightarrow> cell frame \<Rightarrow> cell frame" where
  "tagged location estimate res =
     (let res1 = set_column ''location'' (\<lambda>r. Str location) res
      in case estimate of
           None \<Rightarrow> res1
         | Some e \<Rightarrow> set_column ''estimate'' (\<lambda>r. Str e) res1)"

definition deconv_slice ::
  "'g lib \<Rightarrow> deconv_yaml \<Rightarrow> bool \<Rightarrow> (int \<times> string list) list \<Rightarrow> string \<Rightarrow> nat frame \<Rightarrow>
   int \<times> int option \<Rightarrow> cell frame list \<Rightarrow> cell frame list io" where
  "deconv_slice ll deconv no_date var_dates location temp_dfb iv all_deconv =
     (let mindate = fst iv; maxdate = snd iv;
          temp_df2 = (if \<not> no_date then between_left mindate maxdate temp_dfb else temp_dfb)
      in
      if frame_size temp_df2 = 0 then return_io all_deconv
      else
        (case map_of var_dates mindate of
           None \<Rightarrow> raise_io (KeyError ''var_dates'')
         | Some variants \<Rightarrow>
           bind_io (lift_io (drop_uninformative (variants_columns_of variants temp_df2) temp_df2))
             (\<lambda>temp_df2.
           if frame_size temp_df2 = 0 then return_io all_deconv
           else
             bind_io (lift_io (if dc_bootstrap deconv > 1
                               then map_sum id Some (column ''resample_value'' temp_df2)
                               else Inr None)) (\<lambda>weights.
             bind_io (lift_io (select_columns (variants @ [''undetermined'']) temp_df2)) (\<lambda>X.
             bind_io (lift_io (column ''frac'' temp_df2)) (\<lambda>frac.
             bind_io (lift_io (column ''date'' temp_df2)) (\<lambda>date.
             bind_io ([Deconv location mindate],
                      deconv_all ll \<lparr>ec_X = X, ec_frac = frac, ec_date = date,
                                     ec_weights = weights, ec_no_date = no_date\<rparr>)
               (\<lambda>t_kdec.
             if have_confint deconv then
               return_io (all_deconv @
                 [tagged location (Some ''MSE'') (fitted t_kdec),
                  tagged location (Some (confint_name deconv @ ''_lower'')) (conf_lower t_kdec),
                  tagged location (Some (confint_name deconv @ ''_upper'')) (conf_upper t_kdec)])
             else
               return_io (all_deconv @ [tagged location None (fitted t_kdec)])))))))))"

text \<open>Lines 361-372: one replicate. With a bootstrap count above 1 the rows of the
  location are resampled first, once per replicate, from the generator as the previous
  draw left it.\<close>

definition deconv_replicate ::
  "'g lib \<Rightarrow> deconv_yaml \<Rightarrow> bool \<Rightarrow> (int \<times> string list) list \<Rightarrow> string \<Rightarrow> nat frame \<Rightarrow>
   nat \<Rightarrow> 'g \<times> cell frame list \<Rightarrow> ('g \<times> cell frame list) io" where
  "deconv_replicate ll deconv no_date var_dates location loc_df b st =
     bind_io
       (if dc_bootstrap deconv > 1 then
          bind_io (lift_io (column ''mutations'' loc_df)) (\<lambda>mutations.
          ([Resample location], resample_mutations ll (fst st) loc_df (unique mutations)))
        else return_io (loc_df, fst st)) (\<lambda>(temp_dfb, g).
     bind_io (fold_io (deconv_slice ll deconv no_date var_dates location temp_dfb)
                (date_intervals var_dates) (snd st)) (\<lambda>all_deconv.
     return_io (g, all_deconv)))"

text \<open>Lines 352-360: one location.\<close>

definition deconv_location ::
  "'g lib \<Rightarrow> deconv_yaml \<Rightarrow> bool \<Rightarrow> bool \<Rightarrow> (int \<times> string list) list \<Rightarrow> nat frame \<Rightarrow>
   string \<Rightarrow> 'g \<times> cell frame list \<Rightarrow> ('g \<times> cell frame list) io" where
  "deconv_location ll deconv no_loc no_date var_dates df_tally location st =
     bind_io (if \<not> no_loc then
                (if ''location'' \<in> set (columns df_tally)
                 then return_io (select_rows (\<lambda>(i, r). r ''location'' = Str location) df_tally)
                 else raise_io (KeyError ''location''))
              else return_io df_tally) (\<lambda>loc_df.
     fold_io (deconv_replicate ll deconv no_date var_dates location loc_df)
       (if dc_bootstrap deconv > 1 then [0..<nat (dc_bootstrap deconv)] else [0]) st)"

text \<open>Lines 311-442: the deconvolution of the whole preprocessed table.\<close>

definition deconvolve_all ::
  "'g lib \<Rightarrow> deconv_yaml \<Rightarrow> int option \<Rightarrow> bool \<Rightarrow> bool \<Rightarrow> (int \<times> string list) list \<Rightarrow>
   string list \<Rightarrow> nat frame \<Rightarrow> cell frame list io" where
  "deconvolve_all ll deconv seed no_loc no_date var_dates locations_list df_tally =
     bind_io ([Seed seed], Inr (seed_rng ll seed)) (\<lambda>g.
     bind_io (lift_io (check_params deconv)) (\<lambda>_.
     bind_io (fold_io (deconv_location ll deconv no_loc no_date var_dates df_tally)
                locations_list (g, [])) (\<lambda>st.
     return_io (snd st))))"

section \<open>cli/deconvolute.py: post-processing and output\<close>

text \<open>\<open>pd.concat\<close> of tables whose columns differ: the columns are united in the order
  they first appear, and a cell a table does not have is missing.\<close>

definition pd_concat :: "'i frame list \<Rightarrow> error + 'i frame" where
  "pd_concat fs =
     (if fs = [] then Inl ValueError
      else Inr \<lparr>columns = unique (concat (map columns fs)),
                rows = concat (map (\<lambda>f. map (\<lambda>(i, r). (i, \<lambda>c. if c \<in> set (columns f) then r c else NaN))
                                              (rows f)) fs)\<rparr>)"

definition fillna :: "cell \<Rightarrow> 'i frame \<Rightarrow> 'i frame" where
  "fillna v df = replace [NaN] v df"

definition melt :: "string list \<Rightarrow> string list \<Rightarrow> 'i frame \<Rightarrow> error + 'i frame" where
  "melt id_vars value_vars df =
     (case filter (\<lambda>c. c \<notin> set (columns df)) (id_vars @ value_vars) of
        c # _ \<Rightarrow> Inl (KeyError c)
      | [] \<Rightarrow>
        Inr \<lparr>columns = id_vars @ [''variant'', ''frac''],
             rows = concat (map (\<lambda>v. map (\<lambda>(i, r).
                        (i, (\<lambda>c. if c \<in> set id_vars then r c else NaN)
                              (''variant'' := Str v, ''frac'' := r v))) (rows df)) value_vars)\<rparr>)"

text \<open>\<open>reset_index()\<close> that keeps the old index, as the column \<open>index\<close>.\<close>

definition index_to_column :: "cell frame \<Rightarrow> nat frame" where
  "index_to_column df =
     \<lparr>columns = ''index'' # columns df,
      rows = zip [0..<length (rows df)] (map (\<lambda>(i, r). r(''index'' := i)) (rows df))\<rparr>"

text \<open>The order \<open>sort_values\<close> and \<open>groupby\<close> put cells in: numbers and dates by value,
  strings by code point, missing cells last. (The cells of one key column are of one kind;
  pandas raises TypeError when it has to compare a string with a number.)\<close>

fun cell_key :: "cell \<Rightarrow> nat \<times> real \<times> string" where
  "cell_key (Num x) = (0, x, [])"
| "cell_key (Day d) = (0, real_of_int d, [])"
| "cell_key (Str s) = (1, 0, s)"
| "cell_key NaN = (2, 0, [])"

definition row_key :: "string list \<Rightarrow> row \<Rightarrow> cell list" where
  "row_key by r = map r by"

definition sort_values :: "string list \<Rightarrow> 'i frame \<Rightarrow> 'i frame" where
  "sort_values by df = df\<lparr>rows := sort_key (\<lambda>(i, r). map cell_key (row_key by r)) (rows df)\<rparr>"

text \<open>The keys of the groups of \<open>groupby(by)\<close>: sorted, without the keys that have a
  missing cell.\<close>

definition group_keys :: "string list \<Rightarrow> 'i frame \<Rightarrow> cell list list" where
  "group_keys by df =
     sort_key (map cell_key)
       (unique (filter (\<lambda>k. NaN \<notin> set k) (map (\<lambda>(i, r). row_key by r) (rows df))))"

definition group_values :: "string list \<Rightarrow> string \<Rightarrow> 'i frame \<Rightarrow> cell list \<Rightarrow> cell list" where
  "group_values by c df k =
     map (\<lambda>(i, r). r c) (filter (\<lambda>(i, r). row_key by r = k) (rows df))"

text \<open>The aggregations. \<open>mean\<close> skips missing values; \<open>np.quantile\<close> interpolates
  linearly between the two nearest order statistics and gives NaN when a value is
  missing. None stands for the TypeError on a string or a date.\<close>

definition numeric :: "cell list \<Rightarrow> bool" where
  "numeric cs = list_all (\<lambda>c. case c of Str s \<Rightarrow> False | Day d \<Rightarrow> False | _ \<Rightarrow> True) cs"

definition nums :: "cell list \<Rightarrow> real list" where
  "nums cs = concat (map (\<lambda>c. case c of Num x \<Rightarrow> [x] | _ \<Rightarrow> []) cs)"

definition mean :: "cell list \<Rightarrow> cell" where
  "mean cs = (if nums cs = [] then NaN else Num (sum_list (nums cs) / real (length (nums cs))))"

definition quantile :: "real \<Rightarrow> cell list \<Rightarrow> cell" where
  "quantile q cs =
     (if NaN \<in> set cs \<or> cs = [] then NaN
      else (let s = sort (nums cs); h = real (length s - 1) * q;
                lo = nat \<lfloor>h\<rfloor>; hi = nat \<lceil>h\<rceil>
            in Num (s ! lo + (h - real lo) * (s ! hi - s ! lo))))"

definition agg_columns :: "string list" where
  "agg_columns = [''location'', ''variant'', ''index'']"

text \<open>Lines 473-518, bootstrap: \<open>groupby(agg_columns).agg([mean, q 0.025, q 0.975])\<close>,
  \<open>reset_index\<close>, and the renaming by \<open>export_columns\<close>: \<open>index\<close> to \<open>date\<close>,
  \<open>(frac, mean)\<close> to \<open>proportion\<close>, the first lambda to \<open>proportionLower\<close>, the second
  to \<open>proportionUpper\<close>.\<close>

definition agg_bootstrap :: "nat frame \<Rightarrow> error + nat frame" where
  "agg_bootstrap flat =
     (case filter (\<lambda>c. c \<notin> set (columns flat)) (agg_columns @ [''frac'']) of
        c # _ \<Rightarrow> Inl (KeyError c)
      | [] \<Rightarrow>
        (let keys = group_keys agg_columns flat in
         if list_ex (\<lambda>k. \<not> numeric (group_values agg_columns ''frac'' flat k)) keys
         then Inl TypeError
         else Inr \<lparr>columns = [''location'', ''variant'', ''date'', ''proportion'',
                              ''proportionLower'', ''proportionUpper''],
                   rows = zip [0..<length keys]
                     (map (\<lambda>k. (\<lambda>c. NaN)
                        (''location'' := k ! 0, ''variant'' := k ! 1, ''date'' := k ! 2,
                         ''proportion'' := mean (group_values agg_columns ''frac'' flat k),
                         ''proportionLower'' := quantile (25 / 1000) (group_values agg_columns ''frac'' flat k),
                         ''proportionUpper'' := quantile (975 / 1000) (group_values agg_columns ''frac'' flat k)))
                        keys)\<rparr>))"

text \<open>Lines 494-507, confidence estimator: \<open>pivot(index=agg_columns, columns="estimate")\<close>
  gives one column per estimate label, in sorted order, and a missing cell where a key has
  no row with that label; it raises ValueError when a key has two. The renaming maps
  \<open>(frac, MSE)\<close> to \<open>proportion\<close> and the two bands to \<open>proportionLower\<close> and
  \<open>proportionUpper\<close>; another label \<open>e\<close> would give the column \<open>frac\<close> followed by
  \<open>e\<close>.\<close>

definition export_label :: "string \<Rightarrow> string \<Rightarrow> string" where
  "export_label name e =
     (if e = ''MSE'' then ''proportion''
      else if e = name @ ''_lower'' then ''proportionLower''
      else if e = name @ ''_upper'' then ''proportionUpper''
      else ''frac'' @ e)"

definition the_str :: "cell \<Rightarrow> string" where
  "the_str c = (case c of Str s \<Rightarrow> s | _ \<Rightarrow> [])"

definition agg_pivot :: "string \<Rightarrow> nat frame \<Rightarrow> error + nat frame" where
  "agg_pivot name flat =
     (case filter (\<lambda>c. c \<notin> set (columns flat)) (agg_columns @ [''estimate'', ''frac'']) of
        c # _ \<Rightarrow> Inl (KeyError c)
      | [] \<Rightarrow>
        (let keys = group_keys agg_columns flat;
             labels = sort (unique (map (\<lambda>(i, r). the_str (r ''estimate'')) (rows flat)));
             entry = (\<lambda>k e. map (\<lambda>(i, r). r ''frac'')
                        (filter (\<lambda>(i, r). row_key agg_columns r = k \<and> r ''estimate'' = Str e)
                           (rows flat)))
         in
         if list_ex (\<lambda>k. list_ex (\<lambda>e. length (entry k e) > 1) labels) keys then Inl ValueError
         else Inr \<lparr>columns = [''location'', ''variant'', ''date''] @ map (export_label name) labels,
                   rows = zip [0..<length keys]
                     (map (\<lambda>k c.
                        if c = ''location'' then k ! 0
                        else if c = ''variant'' then k ! 1
                        else if c = ''date'' then k ! 2
                        else (case filter (\<lambda>e. export_label name e = c) labels of
                                e # _ \<Rightarrow> (case entry k e of v # _ \<Rightarrow> v | [] \<Rightarrow> NaN)
                              | [] \<Rightarrow> NaN)) keys)\<rparr>))"

text \<open>Lines 508-514, neither: the long table as it is.\<close>

definition agg_asis :: "nat frame \<Rightarrow> error + nat frame" where
  "agg_asis flat =
     bind_err (select_columns (agg_columns @ [''frac'']) flat) (\<lambda>d.
     Inr (rename_columns [(''index'', ''date''), (''frac'', ''proportion'')] d))"

text \<open>Lines 520-527: back from the logit scale, on the two bounds; \<open>np.exp\<close> is the library's.\<close>

definition np_clip :: "real \<Rightarrow> real \<Rightarrow> real \<Rightarrow> real" where
  "np_clip x lo hi = min hi (max lo x)"

definition expit :: "'g lib \<Rightarrow> real \<Rightarrow> real" where
  "expit ll x = np_exp ll (np_clip x (- 100) 100) / (1 + np_exp ll (np_clip x (- 100) 100))"

fun expit_cell :: "'g lib \<Rightarrow> cell \<Rightarrow> cell option" where
  "expit_cell ll (Num x) = Some (Num (expit ll x))"
| "expit_cell ll NaN = Some NaN"
| "expit_cell ll (Str s) = None"
| "expit_cell ll (Day d) = None"

definition reverse_logit :: "'g lib \<Rightarrow> deconv_yaml \<Rightarrow> nat frame \<Rightarrow> error + nat frame" where
  "reverse_logit ll deconv agg =
     (if have_confint deconv then
        (case dc_scale deconv of
           None \<Rightarrow> Inl (KeyError ''scale'')
         | Some scale \<Rightarrow>
             if scale = ''logit''
             then apply_columns [''proportionLower'', ''proportionUpper''] (expit_cell ll) agg
             else Inr agg)
      else Inr agg)"

text \<open>Lines 444-527: from the list of per-slice results to the aggregated table.\<close>

definition post_process ::
  "'g lib \<Rightarrow> deconv_yaml \<Rightarrow> string list \<Rightarrow> cell frame list \<Rightarrow> error + nat frame" where
  "post_process ll deconv variants_list all_deconv =
     bind_err (pd_concat all_deconv) (\<lambda>deconv_df0.
     (let deconv_df = (if \<not> have_confint deconv then fillna (Num 0) deconv_df0 else deconv_df0);
          id_vars = [''location''] @ (if have_confint deconv then [''estimate''] else []);
          found_var = list_of_set ll
                        (filter (\<lambda>v. v \<in> set (columns deconv_df)) (remdups variants_list))
      in
      bind_err (melt id_vars (found_var @ [''undetermined'']) deconv_df) (\<lambda>deconv_df_flat.
      bind_err (if dc_bootstrap deconv > 1 then agg_bootstrap (index_to_column deconv_df_flat)
                else if have_confint deconv
                  then agg_pivot (confint_name deconv) (index_to_column deconv_df_flat)
                else agg_asis (index_to_column deconv_df_flat)) (\<lambda>deconv_df_agg.
      reverse_logit ll deconv (sort_values [''location'', ''variant'', ''date''] deconv_df_agg)))))"

text \<open>Lines 529-563: the table written to the output file. With \<open>fmt_columns\<close> it is
  pivoted to one row per location and date and one column per metric and variant; the
  metrics come from a set, so their order is the interpreter's. The point estimate of a
  variant is named by the variant, a bound by the variant, an underscore and what follows
  \<open>proportion\<close> in the metric's name.\<close>

definition export_values :: "deconv_yaml \<Rightarrow> string list" where
  "export_values deconv =
     (if dc_bootstrap deconv > 1 \<or> have_confint deconv
      then [''date'', ''proportion'', ''proportionLower'', ''proportionUpper'']
      else [''date'', ''proportion''])"

definition wide_label :: "string \<Rightarrow> string \<Rightarrow> string" where
  "wide_label metric variant =
     (if metric = ''proportion'' then variant
      else if length metric > length ''proportion''
        then variant @ ''_'' @ drop (length ''proportion'') metric
      else metric @ variant)"

definition pivot_wide :: "'g lib \<Rightarrow> deconv_yaml \<Rightarrow> nat frame \<Rightarrow> error + nat frame" where
  "pivot_wide ll deconv agg =
     (let metrics = list_of_set ll (filter (\<lambda>c. c \<noteq> ''date'') (export_values deconv)) in
      case filter (\<lambda>c. c \<notin> set (columns agg)) ([''location'', ''date'', ''variant''] @ metrics) of
        c # _ \<Rightarrow> Inl (KeyError c)
      | [] \<Rightarrow>
        (let keys = group_keys [''location'', ''date''] agg;
             variants = sort (unique (map (\<lambda>(i, r). the_str (r ''variant'')) (rows agg)));
             entry = (\<lambda>k m v. map (\<lambda>(i, r). r m)
                        (filter (\<lambda>(i, r). row_key [''location'', ''date''] r = k \<and>
                                            r ''variant'' = Str v) (rows agg)));
             labelled = concat (map (\<lambda>m. map (\<lambda>v. (wide_label m v, m, v)) variants) metrics)
         in
         if list_ex (\<lambda>k. list_ex (\<lambda>v. list_ex (\<lambda>m. length (entry k m v) > 1) metrics) variants) keys
         then Inl ValueError
         else Inr \<lparr>columns = [''location'', ''date''] @ map fst labelled,
                   rows = zip [0..<length keys]
                     (map (\<lambda>k c.
                        if c = ''location'' then k ! 0
                        else if c = ''date'' then k ! 1
                        else (case map_of labelled c of
                                Some (m, v) \<Rightarrow> (case entry k m v of x # _ \<Rightarrow> x | [] \<Rightarrow> NaN)
                              | None \<Rightarrow> NaN)) keys)\<rparr>))"

definition output_table ::
  "'g lib \<Rightarrow> deconv_yaml \<Rightarrow> bool \<Rightarrow> bool \<Rightarrow> bool \<Rightarrow> nat frame \<Rightarrow> error + nat frame" where
  "output_table ll deconv fmt_columns no_loc no_date agg =
     bind_err (if fmt_columns then pivot_wide ll deconv agg else Inr agg) (\<lambda>output_df.
     Inr (drop_columns ((if no_loc then [''location''] else []) @
                        (if no_date then [''date''] else [])) output_df))"

text \<open>Lines 565-596: the JSON document. It is a dictionary keyed by the locations of the
  aggregated table, each holding a dictionary keyed by its variants, each holding the
  list of the records of that location and variant under \<open>timeseriesSummary\<close>. The
  text written is \<open>json.dumps\<close> of it, with every \<open>NaN\<close> in the text replaced by
  \<open>null\<close>.\<close>

datatype json = JCell cell | JArr "json list" | JObj "(string \<times> json) list"

definition json_columns :: "'g lib \<Rightarrow> deconv_yaml \<Rightarrow> bool \<Rightarrow> string list" where
  "json_columns ll deconv no_date =
     (if no_date then list_of_set ll (filter (\<lambda>c. c \<noteq> ''date'') (export_values deconv))
      else export_values deconv)"

definition json_record :: "'g lib \<Rightarrow> bool \<Rightarrow> string list \<Rightarrow> row \<Rightarrow> json" where
  "json_record ll no_date cols r =
     JObj (map (\<lambda>c. (c, JCell (if \<not> no_date \<and> c = ''date'' then Str (str_date ll (r c)) else r c)))
            cols)"

definition update_data :: "'g lib \<Rightarrow> deconv_yaml \<Rightarrow> bool \<Rightarrow> nat frame \<Rightarrow> error + json" where
  "update_data ll deconv no_date agg =
     (case filter (\<lambda>c. c \<notin> set (columns agg))
             ([''location'', ''variant''] @ json_columns ll deconv no_date) of
        c # _ \<Rightarrow> Inl (KeyError c)
      | [] \<Rightarrow>
        Inr (JObj (map (\<lambda>loc.
               (the_str loc,
                JObj (map (\<lambda>var.
                  (the_str var,
                   JObj [(''timeseriesSummary'',
                          JArr (map (\<lambda>(i, r). json_record ll no_date (json_columns ll deconv no_date) r)
                                  (filter (\<lambda>(i, r). r ''variant'' = var \<and> r ''location'' = loc)
                                     (rows agg))))]))
                  (unique (map (\<lambda>(i, r). r ''variant'') (rows agg))))))
               (unique (map (\<lambda>(i, r). r ''location'') (rows agg))))))"

fun intercalate :: "string \<Rightarrow> string list \<Rightarrow> string" where
  "intercalate sep [] = []"
| "intercalate sep [x] = x"
| "intercalate sep (x # y # ys) = x @ sep @ intercalate sep (y # ys)"

fun dumps_cell :: "'g lib \<Rightarrow> cell \<Rightarrow> string" where
  "dumps_cell ll NaN = ''NaN''"
| "dumps_cell ll (Num x) = repr_float ll x"
| "dumps_cell ll (Str s) = dumps_str ll s"
| "dumps_cell ll (Day d) = dumps_str ll (str_date ll (Day d))"

fun dumps :: "'g lib \<Rightarrow> json \<Rightarrow> string" where
  "dumps ll (JCell c) = dumps_cell ll c"
| "dumps ll (JArr xs) = ''['' @ intercalate '', '' (map (dumps ll) xs) @ '']''"
| "dumps ll (JObj kvs) =
     ''{'' @ intercalate '', '' (map (\<lambda>(k, v). dumps_str ll k @ '': '' @ dumps ll v) kvs) @ ''}''"

text \<open>\<open>str.replace(old, new)\<close>: every occurrence of \<open>old\<close>, from the left, none
  overlapping another. The counter is the number of characters of a match still to skip.\<close>

fun replace_from :: "string \<Rightarrow> string \<Rightarrow> nat \<Rightarrow> string \<Rightarrow> string" where
  "replace_from old new k [] = []"
| "replace_from old new (Suc k) (c # cs) = replace_from old new k cs"
| "replace_from old new 0 (c # cs) =
     (if take (length old) (c # cs) = old
      then new @ replace_from old new (length old - 1) cs
      else c # replace_from old new 0 cs)"

definition str_replace :: "string \<Rightarrow> string \<Rightarrow> string \<Rightarrow> string" where
  "str_replace old new s = replace_from old new 0 s"

definition json_text :: "'g lib \<Rightarrow> json \<Rightarrow> string" where
  "json_text ll doc = str_replace ''NaN'' ''null'' (dumps ll doc)"

text \<open>The whole run, lines 128-596.\<close>

record outputs =
  out_table :: "nat frame"
  out_json :: "json option"

definition deconvolute ::
  "pandas \<Rightarrow> 'g lib \<Rightarrow> conf_yaml \<Rightarrow> (int \<times> string list) list option \<Rightarrow> deconv_yaml \<Rightarrow>
   int option \<Rightarrow> bool \<Rightarrow> bool \<Rightarrow> nat frame \<Rightarrow> outputs io" where
  "deconvolute pd ll conf variants_dates deconv seed fmt_columns out_json_given df_tally =
     bind_io (resolve_missing_location (cf_no_loc conf) (cf_locations_list conf) df_tally)
       (\<lambda>(no_loc, df_tally).
     bind_io (resolve_locations ll no_loc (cf_locations_list conf) df_tally)
       (\<lambda>(locations_list, df_tally).
     bind_io (lift_io (resolve_dates (cf_no_date conf) df_tally)) (\<lambda>(no_date, df_tally).
     (let variants_list = fst (plan_variants ll conf no_date variants_dates);
          var_dates = snd (plan_variants ll conf no_date variants_dates)
      in
      bind_io (check_intervals no_date (date_intervals var_dates)) (\<lambda>_.
      bind_io (lift_io (general_preprocess pd df_tally variants_list (cf_variants_pangolin conf)
                 (cf_variants_not_reported conf) (cf_to_drop conf) (cf_start_date conf)
                 (cf_end_date conf) no_date (cf_remove_deletions conf) True)) (\<lambda>preproc.
      bind_io (deconvolve_all ll deconv seed no_loc no_date var_dates locations_list preproc)
        (\<lambda>all_deconv.
      bind_io (lift_io (post_process ll deconv variants_list all_deconv)) (\<lambda>deconv_df_agg.
      bind_io (lift_io (output_table ll deconv fmt_columns no_loc no_date deconv_df_agg))
        (\<lambda>table.
      bind_io (lift_io (if out_json_given
                        then map_sum id Some (update_data ll deconv no_date deconv_df_agg)
                        else Inr None)) (\<lambda>doc.
      return_io \<lparr>out_table = table, out_json = doc\<rparr>))))))))))"

section \<open>Reading results; example inputs\<close>

text \<open>A table read as its column labels and, per row, the index label and the cells in
  column order.\<close>

definition cells :: "'i frame \<Rightarrow> ('i \<times> cell list) list" where
  "cells df = map (\<lambda>(i, r). (i, map r (columns df))) (rows df)"

definition table :: "error + 'i frame \<Rightarrow> error + string list \<times> ('i \<times> cell list) list" where
  "table res = map_sum id (\<lambda>df. (columns df, cells df)) res"

definition ex_pd :: pandas where
  "ex_pd = \<lparr>astype_str = (\<lambda>c. ''''), to_datetime = Some\<rparr>"

definition ex_tally :: "nat frame" where
  "ex_tally = \<lparr>columns = [''date'', ''mutations'', ''B.1.617.2'', ''Alpha'', ''frac''],
     rows = [(0, (\<lambda>c. NaN)(''date'' := Day 18628, ''mutations'' := Str ''A23403G'',
                   ''B.1.617.2'' := Str ''mut'', ''frac'' := Num (4 / 5)))]\<rparr>"


definition ex_tally2 :: "nat frame" where
  "ex_tally2 = \<lparr>columns = [''sample'', ''location'', ''date'', ''mutations'', ''B.1.617.2'',
                            ''Alpha'', ''frac''],
     rows = [(0, (\<lambda>c. NaN)(''location'' := Str ''subset'', ''date'' := Day 18628,
                   ''mutations'' := Str ''A23403G'', ''B.1.617.2'' := Str ''mut'',
                   ''frac'' := Num (4 / 5)))]\<rparr>"


text \<open>A well-formed cell of a variant column of the tally: a tag, nothing, or already a bit.\<close>

definition bitlike :: "cell \<Rightarrow> bool" where
  "bitlike c = (case c of Num x \<Rightarrow> x = 0 \<or> x = 1 | _ \<Rightarrow> True)"

section \<open>Properties of preprocessors.py\<close>

lemma bind_err_Inr: "(bind_err m f = Inr y) = (\<exists>x. m = Inr x \<and> f x = Inr y)"
  by (cases m) (auto simp: bind_err_def)

lemma apply_column_Inr:
  assumes "apply_column c f df = Inr d"
  shows "columns d = columns df" "length (rows d) = length (rows df)"
    "c \<in> set (columns df)"
    "k < length (rows df) \<Longrightarrow>
       \<exists>v. f (snd (rows df ! k) c) = Some v \<and>
           rows d ! k = (fst (rows df ! k), (snd (rows df ! k))(c := v))"
proof -
  from assms have c: "c \<in> set (columns df)"
    and ok: "\<not> list_ex (\<lambda>(i, r). f (r c) = None) (rows df)"
    and d: "d = df\<lparr>rows := map (\<lambda>(i, r). (i, r(c := (case f (r c) of Some v \<Rightarrow> v | None \<Rightarrow> r c))))
                               (rows df)\<rparr>"
    by (auto simp: apply_column_def split: if_splits)
  show "columns d = columns df" "length (rows d) = length (rows df)" "c \<in> set (columns df)"
    using c d by simp_all
  assume k: "k < length (rows df)"
  obtain i r where ir: "rows df ! k = (i, r)" by (cases "rows df ! k")
  from nth_mem[OF k] ir have "(i, r) \<in> set (rows df)" by simp
  with ok have "f (r c) \<noteq> None" by (auto simp: list_ex_iff)
  then obtain v where "f (r c) = Some v" by auto
  then show "\<exists>v. f (snd (rows df ! k) c) = Some v \<and>
           rows d ! k = (fst (rows df ! k), (snd (rows df ! k))(c := v))"
    using k ir d by simp
qed

lemma apply_columns_Inr:
  assumes "apply_columns cs f df = Inr d"
  shows "columns d = columns df" "length (rows d) = length (rows df)"
    "set cs \<subseteq> set (columns df)"
    "k < length (rows df) \<Longrightarrow>
       fst (rows d ! k) = fst (rows df ! k) \<and>
       (\<forall>c. c \<in> set cs \<longrightarrow> f (snd (rows df ! k) c) = Some (snd (rows d ! k) c)) \<and>
       (\<forall>c. c \<notin> set cs \<longrightarrow> snd (rows d ! k) c = snd (rows df ! k) c)"
proof -
  from assms have c: "filter (\<lambda>c. c \<notin> set (columns df)) cs = []"
    and ok: "\<not> list_ex (\<lambda>(i, r). list_ex (\<lambda>c. f (r c) = None) cs) (rows df)"
    and d: "d = df\<lparr>rows := map (\<lambda>(i, r). (i, \<lambda>c. if c \<in> set cs
                                          then (case f (r c) of Some v \<Rightarrow> v | None \<Rightarrow> r c)
                                          else r c)) (rows df)\<rparr>"
    by (auto simp: apply_columns_def split: if_splits list.splits)
  from c show "set cs \<subseteq> set (columns df)" by (auto simp: filter_empty_conv)
  show "columns d = columns df" "length (rows d) = length (rows df)"
    using d by simp_all
  assume k: "k < length (rows df)"
  obtain i r where ir: "rows df ! k = (i, r)" by (cases "rows df ! k")
  from nth_mem[OF k] ir have "(i, r) \<in> set (rows df)" by simp
  with ok have "\<forall>c\<in>set cs. f (r c) \<noteq> None" by (auto simp: list_ex_iff)
  then show "fst (rows d ! k) = fst (rows df ! k) \<and>
       (\<forall>c. c \<in> set cs \<longrightarrow> f (snd (rows df ! k) c) = Some (snd (rows d ! k) c)) \<and>
       (\<forall>c. c \<notin> set cs \<longrightarrow> snd (rows d ! k) c = snd (rows df ! k) c)"
    using k ir d by auto
qed

lemma make_complement_Inr:
  assumes mc: "make_complement df vs = Inr cpl"
  shows "length (rows cpl) = length (rows df)"
    "''mutations'' \<in> set (columns df)" "''frac'' \<in> set (columns df)"
    "set vs \<subseteq> set (columns df)"
    "k < length (rows df) \<Longrightarrow> fst (rows cpl ! k) = fst (rows df ! k)"
    "k < length (rows df) \<Longrightarrow> snd (rows cpl ! k) ''undetermined'' = Num 1"
    "k < length (rows df) \<Longrightarrow>
       \<exists>m. str_radd ''-'' (snd (rows df ! k) ''mutations'') = Some m \<and>
            (''mutations'' \<notin> set vs \<longrightarrow> snd (rows cpl ! k) ''mutations'' = m) \<and>
            (''mutations'' \<in> set vs \<longrightarrow> rsub1 m \<noteq> None)"
    "k < length (rows df) \<Longrightarrow>
       \<exists>x. rsub1 (snd (rows df ! k) ''frac'') = Some x \<and>
            (''frac'' \<notin> set vs \<longrightarrow> snd (rows cpl ! k) ''frac'' = x)"
    "k < length (rows df) \<Longrightarrow> c \<in> set vs \<Longrightarrow> c \<noteq> ''mutations'' \<Longrightarrow> c \<noteq> ''frac'' \<Longrightarrow>
       c \<noteq> ''undetermined'' \<Longrightarrow> rsub1 (snd (rows df ! k) c) = Some (snd (rows cpl ! k) c)"
    "k < length (rows df) \<Longrightarrow> c \<notin> set vs \<Longrightarrow> c \<noteq> ''mutations'' \<Longrightarrow> c \<noteq> ''frac'' \<Longrightarrow>
       c \<noteq> ''undetermined'' \<Longrightarrow> snd (rows cpl ! k) c = snd (rows df ! k) c"
proof -
  from mc obtain t1 t2 t3 where
    t1: "apply_column ''mutations'' (str_radd ''-'') df = Inr t1" and
    t2: "apply_column ''frac'' rsub1 t1 = Inr t2" and
    t3: "apply_columns vs rsub1 t2 = Inr t3" and
    cpl: "cpl = set_column ''undetermined'' (\<lambda>r. Num 1) t3"
    by (auto simp: make_complement_def bind_err_Inr)
  note a1 = apply_column_Inr[OF t1] and a2 = apply_column_Inr[OF t2]
    and a3 = apply_columns_Inr[OF t3]
  show "length (rows cpl) = length (rows df)"
    using a1(2) a2(2) a3(2) cpl by (simp add: set_column_def)
  show "''mutations'' \<in> set (columns df)" by (rule a1(3))
  show "''frac'' \<in> set (columns df)" using a2(3) a1(1) by simp
  show "set vs \<subseteq> set (columns df)" using a3(3) a2(1) a1(1) by simp
  {
    assume k: "k < length (rows df)"
    then have k1: "k < length (rows t1)" and k2: "k < length (rows t2)"
      and k3: "k < length (rows t3)"
      using a1(2) a2(2) a3(2) by simp_all
    obtain i r where ir: "rows df ! k = (i, r)" by (cases "rows df ! k")
    from a1(4)[OF k] ir obtain m where m: "str_radd ''-'' (r ''mutations'') = Some m"
      and r1: "rows t1 ! k = (i, r(''mutations'' := m))" by auto
    from a2(4)[OF k1] r1 obtain x where x: "rsub1 ((r(''mutations'' := m)) ''frac'') = Some x"
      and r2: "rows t2 ! k = (i, r(''mutations'' := m, ''frac'' := x))" by auto
    from a3(4)[OF k2] r2 have
      f3: "fst (rows t3 ! k) = i" and
      in3: "\<And>c. c \<in> set vs \<Longrightarrow>
         rsub1 ((r(''mutations'' := m, ''frac'' := x)) c) = Some (snd (rows t3 ! k) c)" and
      out3: "\<And>c. c \<notin> set vs \<Longrightarrow>
         snd (rows t3 ! k) c = (r(''mutations'' := m, ''frac'' := x)) c"
      by simp_all
    have rc: "rows cpl ! k = (fst (rows t3 ! k), (snd (rows t3 ! k))(''undetermined'' := Num 1))"
      using cpl k3 by (simp add: set_column_def case_prod_unfold)
    from x have x': "rsub1 (r ''frac'') = Some x" by simp
    have mm: "''mutations'' \<in> set vs \<longrightarrow> rsub1 m \<noteq> None"
      using in3[of "''mutations''"] by auto
    have mcase: "''mutations'' \<notin> set vs \<longrightarrow> snd (rows t3 ! k) ''mutations'' = m"
      using out3[of "''mutations''"] by simp
    have fcase: "''frac'' \<notin> set vs \<longrightarrow> snd (rows t3 ! k) ''frac'' = x"
      using out3[of "''frac''"] by simp
    show "fst (rows cpl ! k) = fst (rows df ! k)" using rc f3 ir by simp
    show "snd (rows cpl ! k) ''undetermined'' = Num 1" using rc by simp
    show "\<exists>m. str_radd ''-'' (snd (rows df ! k) ''mutations'') = Some m \<and>
            (''mutations'' \<notin> set vs \<longrightarrow> snd (rows cpl ! k) ''mutations'' = m) \<and>
            (''mutations'' \<in> set vs \<longrightarrow> rsub1 m \<noteq> None)"
      using m mm mcase by (simp add: ir rc)
    show "\<exists>x. rsub1 (snd (rows df ! k) ''frac'') = Some x \<and>
            (''frac'' \<notin> set vs \<longrightarrow> snd (rows cpl ! k) ''frac'' = x)"
      using x' fcase by (simp add: ir rc)
    {
      assume c: "c \<noteq> ''mutations''" "c \<noteq> ''frac''" "c \<noteq> ''undetermined''"
      {
        assume "c \<in> set vs"
        from in3[OF this] c show "rsub1 (snd (rows df ! k) c) = Some (snd (rows cpl ! k) c)"
          by (simp add: ir rc)
      }
      {
        assume "c \<notin> set vs"
        from out3[OF this] c show "snd (rows cpl ! k) c = snd (rows df ! k) c"
          by (simp add: ir rc)
      }
    }
  }
qed

lemma select_stage_index:
  assumes "select_stage pd df vl vp vnr td sd ed nd rd = Inr d"
  shows "map fst (rows d) = [0..<length (rows d)]"
proof -
  from assms obtain X :: "nat frame" where "d = reset_index X"
    by (auto simp: select_stage_def bind_err_Inr)
  then show ?thesis by (simp add: reset_index_def)
qed

lemma replace_props:
  "columns (replace olds v d) = columns d"
  "length (rows (replace olds v d)) = length (rows d)"
  "k < length (rows d) \<Longrightarrow> fst (rows (replace olds v d) ! k) = fst (rows d ! k)"
  "k < length (rows d) \<Longrightarrow>
     snd (rows (replace olds v d) ! k) c =
       (if snd (rows d ! k) c \<in> set olds then v else snd (rows d ! k) c)"
  by (simp_all add: replace_def case_prod_unfold)

lemma recode_props:
  "columns (recode d) = columns d"
  "length (rows (recode d)) = length (rows d)"
  "k < length (rows d) \<Longrightarrow> fst (rows (recode d) ! k) = fst (rows d ! k)"
  "k < length (rows d) \<Longrightarrow>
     snd (rows (recode d) ! k) c =
       (if snd (rows d ! k) c = NaN then Num 0
        else if snd (rows d ! k) c \<in> set tags then Num 1 else snd (rows d ! k) c)"
  by (simp_all add: recode_def replace_props tags_def)

lemma recode_index: "map fst (rows (recode d)) = map fst (rows d)"
  by (rule nth_equalityI) (simp_all add: recode_props)

lemma recode_no_nan:
  assumes "(i, r) \<in> set (rows (recode d))"
  shows "r c \<noteq> NaN"
proof -
  from assms obtain k where k: "k < length (rows (recode d))" and e: "rows (recode d) ! k = (i, r)"
    by (auto simp: in_set_conv_nth)
  from k have k': "k < length (rows d)" by (simp add: recode_props)
  have "r c = snd (rows (recode d) ! k) c" using e by simp
  then show ?thesis using recode_props(4)[OF k', of c] by (auto simp: tags_def)
qed

lemma drop_uninformative_Inr:
  assumes "drop_uninformative cs d = Inr d1"
  shows "d1 = select_rows (\<lambda>(i, r). informative cs r) d"
    "\<And>i r c. (i, r) \<in> set (rows d) \<Longrightarrow> c \<in> set cs \<Longrightarrow> summand (r c) \<noteq> None"
  using assms by (auto simp: drop_uninformative_def list_ex_iff split: if_splits)

lemma insert_column_Inr:
  assumes "insert_column loc c v d = Inr d2"
  shows "c \<notin> set (columns d)" "set (columns d2) = insert c (set (columns d))"
    "rows d2 = map (\<lambda>(i, r). (i, r(c := v))) (rows d)"
proof -
  from assms have c: "c \<notin> set (columns d)"
    and d2: "d2 = \<lparr>columns = take loc (columns d) @ [c] @ drop loc (columns d),
                rows = map (\<lambda>(i, r). (i, r(c := v))) (rows d)\<rparr>"
    by (auto simp: insert_column_def split: if_splits)
  show "c \<notin> set (columns d)" by (rule c)
  show "rows d2 = map (\<lambda>(i, r). (i, r(c := v))) (rows d)" using d2 by simp
  have "set (take loc (columns d)) \<union> set (drop loc (columns d)) = set (columns d)"
    by (metis append_take_drop_id set_append)
  then show "set (columns d2) = insert c (set (columns d))" using d2 by auto
qed

lemma set_variants_columns_of:
  "set (variants_columns_of vl d) = set vl \<inter> set (columns d)"
  by (auto simp: variants_columns_of_def)

lemma general_preprocess_complement_Inr:
  assumes "general_preprocess pd df vl vp vnr td sd ed nd rd True = Inr out"
  obtains d d1 d2 cpl where
    "select_stage pd df vl vp vnr td sd ed nd rd = Inr d"
    "drop_uninformative (variants_columns_of vl (recode d)) (recode d) = Inr d1"
    "insert_column (length (columns d1) - 1) ''undetermined'' (Num 0) d1 = Inr d2"
    "make_complement d2 (variants_columns_of vl (recode d)) = Inr cpl"
    "out = pd_concat2 d2 cpl"
  using assms
  by (auto simp: general_preprocess_def complement_stage_def bind_err_Inr Let_def)

lemma distinct_filter_index:
  assumes "map fst xs = [0..<length xs]"
  shows "distinct (map fst (filter p xs))"
proof -
  have "distinct (map fst xs)" using assms by simp
  then show ?thesis by (rule distinct_map_filter)
qed

lemma cell_not_nan_cases:
  assumes "rsub1 c = Some v" "c \<noteq> NaN"
  obtains x where "c = Num x" "v = Num (1 - x)"
  using assms by (cases c) auto

lemma str_radd_cases:
  assumes "str_radd a c = Some v" "c \<noteq> NaN"
  obtains s where "c = Str s" "v = Str (a @ s)"
  using assms by (cases c) auto


lemma bitlike_simps [simp]:
  "bitlike NaN" "bitlike (Str s)" "bitlike (Day d)" "bitlike (Num x) = (x = 0 \<or> x = 1)"
  by (simp_all add: bitlike_def)

lemma rows_select_rows: "set (rows (select_rows p d)) \<subseteq> set (rows d)"
  by (auto simp: select_rows_def)

lemma rows_filter_dates: "set (rows (filter_dates nd sd ed d)) \<subseteq> set (rows d)"
  by (auto simp: filter_dates_def select_rows_def split: option.splits)

lemma rows_drop_deletions: "set (rows (drop_deletions rd d)) \<subseteq> set (rows d)"
  by (auto simp: drop_deletions_def select_rows_def)

lemma rows_drop_tagged: "set (rows (drop_tagged td vs d)) \<subseteq> set (rows d)"
proof (induction vs arbitrary: d)
  case Nil
  show ?case by simp
next
  case (Cons v vs)
  show ?case using Cons.IH rows_select_rows by (simp split: if_splits) blast
qed

lemma columns_select_rows [simp]: "columns (select_rows p d) = columns d"
  by (simp add: select_rows_def)

lemma columns_filter_dates [simp]: "columns (filter_dates nd sd ed d) = columns d"
  by (simp add: filter_dates_def split: option.splits)

lemma columns_drop_deletions [simp]: "columns (drop_deletions rd d) = columns d"
  by (simp add: drop_deletions_def)

lemma columns_drop_tagged [simp]: "columns (drop_tagged td vs d) = columns d"
  by (induction vs arbitrary: d) simp_all

lemma snd_rows_reset_index: "snd ` set (rows (reset_index d)) = snd ` set (rows d)"
proof -
  have "map snd (rows (reset_index d)) = map snd (rows d)"
    by (simp add: reset_index_def)
  then have "set (map snd (rows (reset_index d))) = set (map snd (rows d))" by simp
  then show ?thesis by simp
qed

lemma select_stage_cells:
  assumes sel: "select_stage pd df vl vp vnr td sd ed nd rd = Inr d"
    and raw: "\<forall>(i, r)\<in>set (rows df). \<forall>c\<in>set (columns df).
                rename_label vp c = v \<longrightarrow> bitlike (r c)"
    and v: "v \<noteq> ''date''"
    and r: "(i, r) \<in> set (rows d)"
  shows "bitlike (r v)"
proof -
  from sel obtain d1 d2 d3 where
    d1: "dropna (if \<not> nd then [''frac'', ''date''] else [''frac''])
           (drop_columns vnr (rename_columns vp df)) = Inr d1" and
    d2: "derive_mutations pd d1 = Inr d2" and
    d3: "parse_dates pd d2 = Inr d3" and
    d: "d = reset_index (drop_tagged td vl (drop_deletions rd (filter_dates nd sd ed d3)))"
    by (auto simp: select_stage_def bind_err_Inr)
  have P0: "bitlike (r' v)" if "(j, r') \<in> set (rows (rename_columns vp df))" for j r'
  proof -
    from that obtain r0 where r0: "(j, r0) \<in> set (rows df)"
      and r': "r' = (\<lambda>c'. case find (\<lambda>c. rename_label vp c = c') (columns df) of
                          Some c \<Rightarrow> r0 c | None \<Rightarrow> NaN)"
      by (auto simp: rename_columns_def)
    show ?thesis
    proof (cases "find (\<lambda>c. rename_label vp c = v) (columns df)")
      case None
      then show ?thesis using r' by simp
    next
      case (Some c)
      then have "c \<in> set (columns df)" "rename_label vp c = v"
        by (auto simp: find_Some_iff)
      with raw r0 have "bitlike (r0 c)" by blast
      then show ?thesis using r' Some by simp
    qed
  qed
  have P1: "bitlike (r' v)" if "(j, r') \<in> set (rows d1)" for j r'
  proof -
    from d1 have "set (rows d1) \<subseteq> set (rows (rename_columns vp df))"
      by (auto simp: dropna_def select_rows_def drop_columns_def split: list.splits)
    with that P0 show ?thesis by blast
  qed
  have P2: "bitlike (r' v)" if "(j, r') \<in> set (rows d2)" for j r'
  proof (cases "''base'' \<in> set (columns d1) \<and> ''pos'' \<in> set (columns d1)")
    case False
    with d2 have "d2 = d1" by (auto simp: derive_mutations_def)
    with that P1 show ?thesis by blast
  next
    case True
    with d2 have d2': "d2 = set_column ''mutations''
                     (\<lambda>r. case str_add (astype_str pd (r ''pos'')) (r ''base'') of
                             Some v \<Rightarrow> v | None \<Rightarrow> NaN) d1"
      by (auto simp: derive_mutations_def split: if_splits)
    with that obtain r1 where r1: "(j, r1) \<in> set (rows d1)"
      and r': "r' = r1(''mutations'' := (case str_add (astype_str pd (r1 ''pos'')) (r1 ''base'') of
                             Some v \<Rightarrow> v | None \<Rightarrow> NaN))"
      by (auto simp: set_column_def)
    show ?thesis
    proof (cases "v = ''mutations''")
      case True
      have "bitlike (case str_add a c of Some v \<Rightarrow> v | None \<Rightarrow> NaN)" for a c
        by (cases c) simp_all
      then show ?thesis using r' True by simp
    next
      case False
      then show ?thesis using r' P1[OF r1] by simp
    qed
  qed
  have P3: "bitlike (r' v)" if "(j, r') \<in> set (rows d3)" for j r'
  proof -
    from d3 have "d3 = set_column ''date''
                  (\<lambda>r. case to_datetime pd (r ''date'') of Some v \<Rightarrow> v | None \<Rightarrow> NaN) d2"
      by (auto simp: parse_dates_def split: if_splits)
    with that obtain r2 where r2: "(j, r2) \<in> set (rows d2)"
      and r': "r' = r2(''date'' := (case to_datetime pd (r2 ''date'') of Some v \<Rightarrow> v | None \<Rightarrow> NaN))"
      by (auto simp: set_column_def)
    then show ?thesis using v P2[OF r2] by simp
  qed
  from r d have "r \<in> snd ` set (rows (drop_tagged td vl (drop_deletions rd (filter_dates nd sd ed d3))))"
    using snd_rows_reset_index by (metis image_eqI snd_conv)
  then obtain j where "(j, r) \<in> set (rows (drop_tagged td vl (drop_deletions rd (filter_dates nd sd ed d3))))"
    by auto
  then have "(j, r) \<in> set (rows d3)"
    using rows_drop_tagged rows_drop_deletions rows_filter_dates by blast
  then show ?thesis by (rule P3)
qed

lemma recode_mem:
  assumes "(i, r) \<in> set (rows (recode d))"
  shows "\<exists>r0. (i, r0) \<in> set (rows d) \<and>
    (\<forall>c. r c = (if r0 c = NaN then Num 0 else if r0 c \<in> set tags then Num 1 else r0 c))"
proof -
  from assms obtain k where k: "k < length (rows (recode d))" and e: "rows (recode d) ! k = (i, r)"
    by (auto simp: in_set_conv_nth)
  from k have k': "k < length (rows d)" by (simp add: recode_props)
  have i: "fst (rows d ! k) = i" using recode_props(3)[OF k'] e by simp
  have c: "r c = (if snd (rows d ! k) c = NaN then Num 0
        else if snd (rows d ! k) c \<in> set tags then Num 1 else snd (rows d ! k) c)" for c
    using recode_props(4)[OF k', of c] e by simp
  have "(i, snd (rows d ! k)) \<in> set (rows d)"
    using nth_mem[OF k'] i by (metis prod.collapse)
  with c show ?thesis by blast
qed

lemma recode_bitlike:
  assumes "bitlike c"
  shows "bitlike (if c = NaN then Num 0 else if c \<in> set tags then Num 1 else c)"
  using assms by simp

lemma general_preprocess_Inr:
  assumes "general_preprocess pd df vl vp vnr td sd ed nd rd mk = Inr out"
  obtains d d1 d2 where
    "select_stage pd df vl vp vnr td sd ed nd rd = Inr d"
    "drop_uninformative (variants_columns_of vl (recode d)) (recode d) = Inr d1"
    "insert_column (length (columns d1) - 1) ''undetermined'' (Num 0) d1 = Inr d2"
    "if mk then \<exists>cpl. make_complement d2 (variants_columns_of vl (recode d)) = Inr cpl \<and>
        out = pd_concat2 d2 cpl
     else out = d2"
  using assms
  by (auto simp: general_preprocess_def complement_stage_def bind_err_Inr Let_def split: if_splits)


lemma table_Inr:
  assumes "table res = Inr (cs, xs)"
  obtains out where "res = Inr out" "columns out = cs" "cells out = xs"
  using assms by (cases res) (auto simp: table_def)

subsection \<open>C1: every surviving observation has exactly one complement\<close>

text \<open>
  Claim C1. After \<open>general_preprocess\<close> with complement generation enabled, the result
  has twice as many rows as there are surviving observations: the first \<open>n\<close> rows are
  the observations (\<open>undetermined = 0\<close>), and the row at position \<open>n + k\<close> is the
  complement of row \<open>k\<close>. It carries the same index label, so it is the only row with
  that label and \<open>undetermined = 1\<close>; its \<open>frac\<close> is one minus the observation's, its
  signature is the observation's with \<open>-\<close> in front, and in every variant column its
  indicator is the observation's, inverted. The reserved names \<open>frac\<close> and \<open>date\<close>
  are not variant names, and the tally holds tags or nothing (or already the bits 0 and 1)
  in its variant columns, never another number.
\<close>

theorem complement_rows:
  assumes gp: "general_preprocess pd df vl vp vnr td sd ed nd rd True = Inr out"
    and frac: "''frac'' \<notin> set vl" and date: "''date'' \<notin> set vl"
    and raw: "\<forall>(i, r)\<in>set (rows df). \<forall>c\<in>set (columns df).
                rename_label vp c \<in> set vl \<longrightarrow> bitlike (r c)"
  shows "\<exists>n. length (rows out) = 2 * n \<and>
    (\<forall>k<n. snd (rows out ! k) ''undetermined'' = Num 0) \<and>
    (\<forall>k<n. \<forall>j<2 * n.
        (fst (rows out ! j) = fst (rows out ! k) \<and> snd (rows out ! j) ''undetermined'' = Num 1)
          = (j = n + k)) \<and>
    (\<forall>k<n.
        (\<exists>x. snd (rows out ! k) ''frac'' = Num x \<and> snd (rows out ! (n + k)) ''frac'' = Num (1 - x)) \<and>
        (\<exists>s. snd (rows out ! k) ''mutations'' = Str s \<and>
             snd (rows out ! (n + k)) ''mutations'' = Str (''-'' @ s)) \<and>
        (\<forall>v\<in>set vl \<inter> set (columns out).
           (snd (rows out ! k) v = Num 0 \<and> snd (rows out ! (n + k)) v = Num 1) \<or>
           (snd (rows out ! k) v = Num 1 \<and> snd (rows out ! (n + k)) v = Num 0)))"
proof -
  from gp obtain d d1 d2 cpl where
    sel: "select_stage pd df vl vp vnr td sd ed nd rd = Inr d" and
    du: "drop_uninformative (variants_columns_of vl (recode d)) (recode d) = Inr d1" and
    ins: "insert_column (length (columns d1) - 1) ''undetermined'' (Num 0) d1 = Inr d2" and
    mc: "make_complement d2 (variants_columns_of vl (recode d)) = Inr cpl" and
    out: "out = pd_concat2 d2 cpl"
    by (rule general_preprocess_complement_Inr)
  define vs where "vs = variants_columns_of vl (recode d)"
  define n where "n = length (rows d2)"
  note mcI = make_complement_Inr[OF mc, folded vs_def]
  have d1: "d1 = select_rows (\<lambda>(i, r). informative vs r) (recode d)"
    using drop_uninformative_Inr(1)[OF du] by (simp add: vs_def)
  have rows_d2: "rows d2 = map (\<lambda>(i, r). (i, r(''undetermined'' := Num 0))) (rows d1)"
    by (rule insert_column_Inr(3)[OF ins])
  have und_cols: "''undetermined'' \<notin> set (columns d1)"
    by (rule insert_column_Inr(1)[OF ins])
  have cols_d2: "set (columns d2) = insert ''undetermined'' (set (columns d1))"
    by (rule insert_column_Inr(2)[OF ins])
  have cols_d1: "columns d1 = columns d"
    using d1 by (simp add: select_rows_def recode_props)
  have vs_set: "set vs = set vl \<inter> set (columns d)"
    by (simp add: vs_def set_variants_columns_of recode_props)
  have und_vs: "''undetermined'' \<notin> set vs"
    using und_cols cols_d1 vs_set by simp
  have frac_vs: "''frac'' \<notin> set vs" using frac vs_set by simp
  have len: "length (rows cpl) = n" using mcI(1) by (simp add: n_def)
  have rows_out: "rows out = rows d2 @ rows cpl" using out by (simp add: pd_concat2_def)
  have cols_out: "columns out = columns d2" using out by (simp add: pd_concat2_def)
  have idx: "map fst (rows d2) = map fst (filter (\<lambda>(i, r). informative vs r) (rows (recode d)))"
    using rows_d2 d1 by (simp add: select_rows_def case_prod_unfold comp_def)
  have "map fst (rows (recode d)) = [0..<length (rows (recode d))]"
    using select_stage_index[OF sel] by (simp add: recode_index recode_props)
  then have dist: "distinct (map fst (rows d2))"
    unfolding idx by (rule distinct_filter_index)
  have no_nan: "r c \<noteq> NaN" if "(i, r) \<in> set (rows d2)" for i r c
  proof -
    from that rows_d2 obtain r0 where r0: "(i, r0) \<in> set (rows d1)"
      and r: "r = r0(''undetermined'' := Num 0)" by auto
    from r0 d1 have "(i, r0) \<in> set (rows (recode d))" by (simp add: select_rows_def)
    then have "r0 c \<noteq> NaN" by (rule recode_no_nan)
    then show ?thesis using r by simp
  qed
  have orig: "rows out ! k = rows d2 ! k" if "k < n" for k
    using that rows_out by (simp add: n_def nth_append)
  have compl: "rows out ! (n + k) = rows cpl ! k" for k
    using rows_out by (simp add: n_def nth_append)
  have und0: "snd (rows d2 ! k) ''undetermined'' = Num 0" if "k < n" for k
    using that rows_d2 by (simp add: n_def case_prod_unfold)
  have A: "length (rows out) = 2 * n" using rows_out len by (simp add: n_def)
  have B: "\<forall>k<n. snd (rows out ! k) ''undetermined'' = Num 0"
    using orig und0 by simp
  have C: "\<forall>k<n. \<forall>j<2 * n.
        (fst (rows out ! j) = fst (rows out ! k) \<and> snd (rows out ! j) ''undetermined'' = Num 1)
          = (j = n + k)"
  proof (intro allI impI)
    fix k j assume k: "k < n" and j: "j < 2 * n"
    show "(fst (rows out ! j) = fst (rows out ! k) \<and> snd (rows out ! j) ''undetermined'' = Num 1)
          = (j = n + k)"
    proof (cases "j < n")
      case True
      then show ?thesis using orig[OF True] und0[OF True] by simp
    next
      case False
      define j' where "j' = j - n"
      have j': "j = n + j'" and j'n: "j' < n"
        using False j by (simp_all add: j'_def)
      have f: "fst (rows cpl ! j') = fst (rows d2 ! j')"
        and u: "snd (rows cpl ! j') ''undetermined'' = Num 1"
        using mcI(5)[of j'] mcI(6)[of j'] j'n by (simp_all add: n_def)
      have "(map fst (rows d2) ! j' = map fst (rows d2) ! k) = (j' = k)"
        using j'n k by (intro nth_eq_iff_index_eq[OF dist]) (simp_all add: n_def)
      then have "(fst (rows d2 ! j') = fst (rows d2 ! k)) = (j' = k)"
        using j'n k by (simp add: n_def)
      then show ?thesis using j' compl[of j'] f u orig[OF k] by simp
    qed
  qed
  have D: "\<forall>k<n.
        (\<exists>x. snd (rows out ! k) ''frac'' = Num x \<and> snd (rows out ! (n + k)) ''frac'' = Num (1 - x)) \<and>
        (\<exists>s. snd (rows out ! k) ''mutations'' = Str s \<and>
             snd (rows out ! (n + k)) ''mutations'' = Str (''-'' @ s)) \<and>
        (\<forall>v\<in>set vl \<inter> set (columns out).
           (snd (rows out ! k) v = Num 0 \<and> snd (rows out ! (n + k)) v = Num 1) \<or>
           (snd (rows out ! k) v = Num 1 \<and> snd (rows out ! (n + k)) v = Num 0))"
  proof (intro allI impI)
    fix k assume k: "k < n"
    then have kd: "k < length (rows d2)" by (simp add: n_def)
    define r where "r = snd (rows d2 ! k)"
    define r' where "r' = snd (rows cpl ! k)"
    have mem: "(fst (rows d2 ! k), r) \<in> set (rows d2)"
      using nth_mem[OF kd] by (simp add: r_def)
    have nn: "r c \<noteq> NaN" for c using no_nan[OF mem] .
    have und1: "r' ''undetermined'' = Num 1"
      using mcI(6)[OF kd] by (simp add: r'_def)
    from mcI(7)[OF kd] obtain m where m: "str_radd ''-'' (r ''mutations'') = Some m"
      and m1: "''mutations'' \<notin> set vs \<longrightarrow> r' ''mutations'' = m"
      and m2: "''mutations'' \<in> set vs \<longrightarrow> rsub1 m \<noteq> None"
      unfolding r_def r'_def by (elim exE conjE)
    from m nn obtain s where s: "r ''mutations'' = Str s" "m = Str (''-'' @ s)"
      by (rule str_radd_cases)
    from m2 s have mut_vs: "''mutations'' \<notin> set vs" by auto
    from mcI(8)[OF kd] obtain x' where x': "rsub1 (r ''frac'') = Some x'"
      and x1: "''frac'' \<notin> set vs \<longrightarrow> r' ''frac'' = x'"
      unfolding r_def r'_def by (elim exE conjE)
    from x' nn obtain x where x: "r ''frac'' = Num x" "x' = Num (1 - x)"
      by (rule cell_not_nan_cases)
    have bits: "bitlike (r v)" if v: "v \<in> set vl" for v
    proof -
      from mem rows_d2 obtain r1 where r1: "(fst (rows d2 ! k), r1) \<in> set (rows d1)"
        and r: "r = r1(''undetermined'' := Num 0)" by auto
      from r1 d1 have "(fst (rows d2 ! k), r1) \<in> set (rows (recode d))"
        by (simp add: select_rows_def)
      from recode_mem[OF this] obtain r0 where r0: "(fst (rows d2 ! k), r0) \<in> set (rows d)"
        and c: "r1 v = (if r0 v = NaN then Num 0 else if r0 v \<in> set tags then Num 1 else r0 v)"
        by blast
      from raw v have "\<forall>(i, r)\<in>set (rows df). \<forall>c\<in>set (columns df).
                rename_label vp c = v \<longrightarrow> bitlike (r c)" by blast
      moreover from v date have "v \<noteq> ''date''" by auto
      ultimately have "bitlike (r0 v)" using r0 by (intro select_stage_cells[OF sel])
      then have "bitlike (r1 v)" unfolding c by (rule recode_bitlike)
      then show ?thesis using r by simp
    qed
    have vcase: "(r v = Num 0 \<and> r' v = Num 1) \<or> (r v = Num 1 \<and> r' v = Num 0)"
      if v: "v \<in> set vl" "v \<in> set (columns out)" for v
    proof (cases "v = ''undetermined''")
      case True
      moreover have "r ''undetermined'' = Num 0" using und0[OF k] by (simp add: r_def)
      ultimately show ?thesis using und1 by simp
    next
      case False
      with v cols_out cols_d2 cols_d1 vs_set have vv: "v \<in> set vs" by auto
      with mut_vs frac_vs have ne: "v \<noteq> ''mutations''" "v \<noteq> ''frac''" by auto
      from mcI(9)[OF kd vv ne False] have "rsub1 (r v) = Some (r' v)"
        by (simp add: r_def r'_def)
      from this nn obtain b where b: "r v = Num b" "r' v = Num (1 - b)"
        by (rule cell_not_nan_cases)
      from bits[OF v(1)] b have "b = 0 \<or> b = 1" by simp
      with b show ?thesis by auto
    qed
    have F: "\<exists>x. r ''frac'' = Num x \<and> r' ''frac'' = Num (1 - x)"
      using x x1 frac_vs by simp
    have M: "\<exists>s. r ''mutations'' = Str s \<and> r' ''mutations'' = Str (''-'' @ s)"
      using s m1 mut_vs by simp
    have V: "\<forall>v\<in>set vl \<inter> set (columns out).
        (r v = Num 0 \<and> r' v = Num 1) \<or> (r v = Num 1 \<and> r' v = Num 0)"
      using vcase by simp
    have ro: "snd (rows out ! k) = r" using orig[OF k] by (simp add: r_def)
    have rc: "snd (rows out ! (n + k)) = r'" using compl[of k] by (simp add: r'_def)
    show "(\<exists>x. snd (rows out ! k) ''frac'' = Num x \<and> snd (rows out ! (n + k)) ''frac'' = Num (1 - x)) \<and>
        (\<exists>s. snd (rows out ! k) ''mutations'' = Str s \<and>
             snd (rows out ! (n + k)) ''mutations'' = Str (''-'' @ s)) \<and>
        (\<forall>v\<in>set vl \<inter> set (columns out).
           (snd (rows out ! k) v = Num 0 \<and> snd (rows out ! (n + k)) v = Num 1) \<or>
           (snd (rows out ! k) v = Num 1 \<and> snd (rows out ! (n + k)) v = Num 0))"
      unfolding ro rc using F M V by (intro conjI)
  qed
  from A B C D show ?thesis by blast
qed

theorem complement_rows_witness:
  "''frac'' \<notin> set [''Alpha'', ''Delta''] \<and> ''date'' \<notin> set [''Alpha'', ''Delta''] \<and>
   table (general_preprocess ex_pd ex_tally [''Alpha'', ''Delta''] [(''B.1.617.2'', ''Delta'')]
            [] [] None None False True True) =
     Inr ([''date'', ''mutations'', ''Delta'', ''Alpha'', ''undetermined'', ''frac''],
          [(0, [Day 18628, Str ''A23403G'', Num 1, Num 0, Num 0, Num (4 / 5)]),
           (0, [Day 18628, Str ''-A23403G'', Num 0, Num 1, Num 1, Num (1 / 5)])]) \<and>
   (\<exists>out n. general_preprocess ex_pd ex_tally [''Alpha'', ''Delta''] [(''B.1.617.2'', ''Delta'')]
            [] [] None None False True True = Inr out \<and>
       length (rows out) = 2 * n \<and> n = 1 \<and>
       snd (rows out ! 0) ''undetermined'' = Num 0)"
proof -
  have t: "table (general_preprocess ex_pd ex_tally [''Alpha'', ''Delta''] [(''B.1.617.2'', ''Delta'')]
            [] [] None None False True True) =
     Inr ([''date'', ''mutations'', ''Delta'', ''Alpha'', ''undetermined'', ''frac''],
          [(0, [Day 18628, Str ''A23403G'', Num 1, Num 0, Num 0, Num (4 / 5)]),
           (0, [Day 18628, Str ''-A23403G'', Num 0, Num 1, Num 1, Num (1 / 5)])])"
    by code_simp
  from t obtain out where
    e: "general_preprocess ex_pd ex_tally [''Alpha'', ''Delta''] [(''B.1.617.2'', ''Delta'')]
            [] [] None None False True True = Inr out"
    and cl: "cells out = [(0, [Day 18628, Str ''A23403G'', Num 1, Num 0, Num 0, Num (4 / 5)]),
           (0, [Day 18628, Str ''-A23403G'', Num 0, Num 1, Num 1, Num (1 / 5)])]"
    by (rule table_Inr)
  have f: "''frac'' \<notin> set [''Alpha'', ''Delta'']" and d: "''date'' \<notin> set [''Alpha'', ''Delta'']"
    by simp_all
  have raw: "\<forall>(i, r)\<in>set (rows ex_tally). \<forall>c\<in>set (columns ex_tally).
      rename_label [(''B.1.617.2'', ''Delta'')] c \<in> set [''Alpha'', ''Delta''] \<longrightarrow> bitlike (r c)"
    by (simp add: ex_tally_def rename_label_def)
  from complement_rows[OF e f d raw] obtain n where
    n: "length (rows out) = 2 * n" and
    u: "\<forall>k<n. snd (rows out ! k) ''undetermined'' = Num 0" by blast
  have "length (cells out) = 2" unfolding cl by simp
  then have "length (rows out) = 2" by (simp add: cells_def)
  with n have n1: "n = 1" by simp
  with u have "snd (rows out ! 0) ''undetermined'' = Num 0" by simp
  with t e f d n n1 show ?thesis by blast
qed

subsection \<open>C9: recoding reaches every column\<close>

text \<open>
  Claim C9. The recoding pass of \<open>general_preprocess\<close> is not limited to the variant
  columns. Every row of the result comes from a row \<open>r0\<close> of the table as it stands
  after \<open>reset_index\<close>, with the same index label, and in every column of that table a
  missing cell has become 0 and a cell holding one of the five tags has become 1. This
  holds for all columns of an observation row, and for the columns of a complement row
  that \<open>make_complement\<close> does not rewrite (so for \<open>location\<close> or \<open>sample\<close>).
\<close>

theorem recode_every_column:
  assumes gp: "general_preprocess pd df vl vp vnr td sd ed nd rd mk = Inr out"
  shows "\<exists>d. select_stage pd df vl vp vnr td sd ed nd rd = Inr d \<and>
     (\<forall>(i, r)\<in>set (rows out). \<exists>r0. (i, r0) \<in> set (rows d) \<and>
        (\<forall>c\<in>set (columns d).
            r ''undetermined'' = Num 0 \<or> c \<notin> set vl \<union> {''mutations'', ''frac''} \<longrightarrow>
            r c = (if r0 c = NaN then Num 0 else if r0 c \<in> set tags then Num 1 else r0 c)))"
proof -
  from gp obtain d d1 d2 where
    sel: "select_stage pd df vl vp vnr td sd ed nd rd = Inr d" and
    du: "drop_uninformative (variants_columns_of vl (recode d)) (recode d) = Inr d1" and
    ins: "insert_column (length (columns d1) - 1) ''undetermined'' (Num 0) d1 = Inr d2" and
    fin: "if mk then \<exists>cpl. make_complement d2 (variants_columns_of vl (recode d)) = Inr cpl \<and>
        out = pd_concat2 d2 cpl else out = d2"
    by (rule general_preprocess_Inr)
  define vs where "vs = variants_columns_of vl (recode d)"
  have d1: "d1 = select_rows (\<lambda>(i, r). informative vs r) (recode d)"
    using drop_uninformative_Inr(1)[OF du] by (simp add: vs_def)
  have rows_d2: "rows d2 = map (\<lambda>(i, r). (i, r(''undetermined'' := Num 0))) (rows d1)"
    by (rule insert_column_Inr(3)[OF ins])
  have und_cols: "''undetermined'' \<notin> set (columns d)"
    using insert_column_Inr(1)[OF ins] d1 by (simp add: recode_props)
  have vs_set: "set vs = set vl \<inter> set (columns d)"
    by (simp add: vs_def set_variants_columns_of recode_props)
  have orig: "\<exists>r0. (i, r0) \<in> set (rows d) \<and>
        (\<forall>c\<in>set (columns d).
            r c = (if r0 c = NaN then Num 0 else if r0 c \<in> set tags then Num 1 else r0 c))"
    if "(i, r) \<in> set (rows d2)" for i r
  proof -
    from that rows_d2 obtain r1 where r1: "(i, r1) \<in> set (rows d1)"
      and r: "r = r1(''undetermined'' := Num 0)" by auto
    from r1 d1 have "(i, r1) \<in> set (rows (recode d))" by (simp add: select_rows_def)
    from recode_mem[OF this] obtain r0 where r0: "(i, r0) \<in> set (rows d)"
      and c: "\<And>c. r1 c = (if r0 c = NaN then Num 0 else if r0 c \<in> set tags then Num 1 else r0 c)"
      by blast
    have "r c = (if r0 c = NaN then Num 0 else if r0 c \<in> set tags then Num 1 else r0 c)"
      if "c \<in> set (columns d)" for c
    proof -
      from that und_cols have "c \<noteq> ''undetermined''" by auto
      then show ?thesis using r c[of c] by simp
    qed
    with r0 show ?thesis by blast
  qed
  have all: "\<exists>r0. (i, r0) \<in> set (rows d) \<and>
        (\<forall>c\<in>set (columns d).
            r ''undetermined'' = Num 0 \<or> c \<notin> set vl \<union> {''mutations'', ''frac''} \<longrightarrow>
            r c = (if r0 c = NaN then Num 0 else if r0 c \<in> set tags then Num 1 else r0 c))"
    if ir: "(i, r) \<in> set (rows out)" for i r
  proof (cases "(i, r) \<in> set (rows d2)")
    case True
    from orig[OF True] show ?thesis by blast
  next
    case False
    with fin ir have mk by (auto split: if_splits)
    with fin obtain cpl where mc: "make_complement d2 vs = Inr cpl"
      and out: "out = pd_concat2 d2 cpl" by (auto simp: vs_def)
    note mcI = make_complement_Inr[OF mc]
    from ir False out have "(i, r) \<in> set (rows cpl)" by (simp add: pd_concat2_def)
    then obtain k where k: "k < length (rows cpl)" and e: "rows cpl ! k = (i, r)"
      by (auto simp: in_set_conv_nth)
    from k mcI(1) have kd: "k < length (rows d2)" by simp
    obtain r2 where r2: "rows d2 ! k = (i, r2)"
      using mcI(5)[OF kd] e by (cases "rows d2 ! k") simp
    have mem: "(i, r2) \<in> set (rows d2)" using nth_mem[OF kd] r2 by simp
    from orig[OF mem] obtain r0 where r0: "(i, r0) \<in> set (rows d)"
      and c2: "\<And>c. c \<in> set (columns d) \<Longrightarrow>
         r2 c = (if r0 c = NaN then Num 0 else if r0 c \<in> set tags then Num 1 else r0 c)"
      by blast
    have und1: "r ''undetermined'' = Num 1" using mcI(6)[OF kd] e by simp
    have "r c = (if r0 c = NaN then Num 0 else if r0 c \<in> set tags then Num 1 else r0 c)"
      if c: "c \<in> set (columns d)" and nv: "c \<notin> set vl \<union> {''mutations'', ''frac''}" for c
    proof -
      from c und_cols have "c \<noteq> ''undetermined''" by auto
      moreover from nv vs_set have "c \<notin> set vs" "c \<noteq> ''mutations''" "c \<noteq> ''frac''" by auto
      ultimately have "snd (rows cpl ! k) c = snd (rows d2 ! k) c"
        using mcI(10)[OF kd] by simp
      then show ?thesis using e r2 c2[OF c] by simp
    qed
    with r0 und1 show ?thesis by auto
  qed
  from sel all show ?thesis by blast
qed

theorem recode_every_column_witness:
  "table (general_preprocess ex_pd ex_tally2 [''Alpha'', ''Delta''] [(''B.1.617.2'', ''Delta'')]
            [] [] None None False True True) =
     Inr ([''sample'', ''location'', ''date'', ''mutations'', ''Delta'', ''Alpha'',
           ''undetermined'', ''frac''],
          [(0, [Num 0, Num 1, Day 18628, Str ''A23403G'', Num 1, Num 0, Num 0, Num (4 / 5)]),
           (0, [Num 0, Num 1, Day 18628, Str ''-A23403G'', Num 0, Num 1, Num 1, Num (1 / 5)])]) \<and>
   (\<exists>d. table (select_stage ex_pd ex_tally2 [''Alpha'', ''Delta''] [(''B.1.617.2'', ''Delta'')]
            [] [] None None False True) = table (Inr d) \<and>
        cells d = [(0, [NaN, Str ''subset'', Day 18628, Str ''A23403G'', Str ''mut'', NaN,
                        Num (4 / 5)])])"
proof -
  have t: "table (general_preprocess ex_pd ex_tally2 [''Alpha'', ''Delta''] [(''B.1.617.2'', ''Delta'')]
            [] [] None None False True True) =
     Inr ([''sample'', ''location'', ''date'', ''mutations'', ''Delta'', ''Alpha'',
           ''undetermined'', ''frac''],
          [(0, [Num 0, Num 1, Day 18628, Str ''A23403G'', Num 1, Num 0, Num 0, Num (4 / 5)]),
           (0, [Num 0, Num 1, Day 18628, Str ''-A23403G'', Num 0, Num 1, Num 1, Num (1 / 5)])])"
    by code_simp
  from t obtain out where
    e: "general_preprocess ex_pd ex_tally2 [''Alpha'', ''Delta''] [(''B.1.617.2'', ''Delta'')]
            [] [] None None False True True = Inr out"
    by (rule table_Inr)
  from recode_every_column[OF e] obtain d where
    s: "select_stage ex_pd ex_tally2 [''Alpha'', ''Delta''] [(''B.1.617.2'', ''Delta'')]
            [] [] None None False True = Inr d" by blast
  have "table (select_stage ex_pd ex_tally2 [''Alpha'', ''Delta''] [(''B.1.617.2'', ''Delta'')]
            [] [] None None False True) =
      Inr ([''sample'', ''location'', ''date'', ''mutations'', ''Delta'', ''Alpha'', ''frac''],
         [(0, [NaN, Str ''subset'', Day 18628, Str ''A23403G'', Str ''mut'', NaN, Num (4 / 5)])])"
    by code_simp
  with s have "cells d = [(0, [NaN, Str ''subset'', Day 18628, Str ''A23403G'', Str ''mut'', NaN,
                        Num (4 / 5)])]"
    by (simp add: table_def)
  with t s show ?thesis by auto
qed

end
